theory Spec2Isabelle
  imports Main
begin

section \<open>The IPRoute model of route.py\<close>

text \<open>
  A shallow embedding of class \<open>IPRoute\<close> (route.py). Every method is a function from
  the state before the call to a result and the state after it; a raised exception is
  the result \<open>Inl e\<close>, and the state that comes with it is what the method had already
  changed when it raised.
\<close>

subsection \<open>Exceptions\<close>

text \<open>
  \<open>ValueError\<close> and \<open>KeyError\<close> are the exceptions route.py raises itself (a missing
  dict key raises \<open>KeyError\<close>); \<open>Exception\<close> stands for any other exception object, as
  the network primitives raise them, carrying its message.
\<close>

datatype exn = ValueError string | KeyError string | Exception string

text \<open>\<open>"%s" % e\<close>: the message of an exception; a \<open>KeyError\<close> prints its key quoted.\<close>

fun str_exn :: "exn \<Rightarrow> string" where
  "str_exn (ValueError m) = m"
| "str_exn (KeyError k) = CHR 0x27 # k @ [CHR 0x27]"
| "str_exn (Exception m) = m"

subsection \<open>Dictionaries\<close>

text \<open>
  The dict \<open>default\<close> that \<open>update_default\<close> receives and \<open>list_default\<close> returns: the keys
  "interface" and "gateway", each present or absent. The empty dict has neither.
\<close>

record route =
  interface :: "string option"
  gateway :: "string option"

text \<open>
  An element of \<open>self.interfaces\<close>. Line 196 is the only place that creates one, and it
  always sets "interface"; "gateway" is set only when the update carried one.
\<close>

record entry =
  e_interface :: string
  e_gateway :: "string option"

text \<open>The dict \<open>interface\<close> that \<open>update_interface_router\<close> receives: keys "name", "gateway".\<close>

record iface_update =
  name :: "string option"
  u_gateway :: "string option"

text \<open>An entry of the registry read as a \<open>default\<close> dict (\<open>default = iface\<close>, line 152).\<close>

definition entry_dict :: "entry \<Rightarrow> route" where
  "entry_dict e = \<lparr>interface = Some (e_interface e), gateway = e_gateway e\<rparr>"

text \<open>Truthiness of a value that is \<open>None\<close> or a string: \<open>None\<close> and \<open>""\<close> are false.\<close>

fun truthy :: "string option \<Rightarrow> bool" where
  "truthy None = False"
| "truthy (Some v) = (v \<noteq> [])"

text \<open>\<open>if default:\<close> on a dict: true when it has a key.\<close>

definition nonempty_dict :: "route \<Rightarrow> bool" where
  "nonempty_dict d = (interface d \<noteq> None \<or> gateway d \<noteq> None)"

subsection \<open>The collaborators\<close>

text \<open>
  Modules \<open>ip\<close> and \<open>netifaces\<close> and the model store are not part of route.py; the
  operations route.py calls on them are parameters of the model, over a state \<open>'os\<close> of
  the operating system. A query reads that state; \<open>ip.route.delete\<close> and \<open>ip.route.add\<close>
  return the state they leave and the exception they raise, if any.
\<close>

datatype family = AF_INET | AF_INET6

record 'os prims =
  addr_interfaces :: "'os \<Rightarrow> exn + string list"
  addr_ifaddresses :: "'os \<Rightarrow> string \<Rightarrow> exn + int"
  route_delete :: "'os \<Rightarrow> exn option \<times> 'os"
  route_add :: "string \<Rightarrow> string option \<Rightarrow> 'os \<Rightarrow> exn option \<times> 'os"
  netifaces_gateways :: "'os \<Rightarrow> (family \<times> string \<times> string) list"

text \<open>
  \<open>addr_ifaddresses\<close> gives the "link" value of the dict \<open>ip.addr.ifaddresses\<close> returns;
  \<open>netifaces_gateways\<close> gives the dict \<open>netifaces.gateways()['default']\<close>, from address
  family to (gateway, interface), as an association list.

  Every call that leaves the object is recorded, in order.
\<close>

datatype call =
    Addr_interfaces
  | Addr_ifaddresses string
  | Netifaces_gateways
  | Route_delete
  | Route_add string "string option"
  | Save_db
  | Backup_db

text \<open>The calls that only read.\<close>

fun is_query :: "call \<Rightarrow> bool" where
  "is_query Addr_interfaces = True"
| "is_query (Addr_ifaddresses i) = True"
| "is_query Netifaces_gateways = True"
| "is_query c = False"

subsection \<open>The state\<close>

text \<open>
  \<open>cellular\<close> and \<open>interfaces\<close> are the attributes of the object; \<open>model_db\<close> is
  \<open>self.model.db\<close>, \<open>saved_db\<close> and \<open>backup_db\<close> are what \<open>save_db\<close> and \<open>backup_db\<close> last
  wrote; \<open>os\<close> is the operating system, \<open>calls\<close> the calls made so far and \<open>logger\<close> the
  lines given to \<open>_logger.info\<close>. The two calls of \<open>save\<close> on the store are taken to
  return normally.
\<close>

record 'os iproute =
  cellular :: "string option"
  interfaces :: "entry list"
  model_db :: "string \<rightharpoonup> string"
  saved_db :: "string \<rightharpoonup> string"
  backup_db :: "string \<rightharpoonup> string"
  os :: 'os
  calls :: "call list"
  logger :: "string list"

definition save :: "'os iproute \<Rightarrow> 'os iproute" where
  "save s = s\<lparr>saved_db := model_db s, backup_db := model_db s,
               calls := calls s @ [Save_db, Backup_db]\<rparr>"

definition ip_route_delete :: "'os prims \<Rightarrow> 'os iproute \<Rightarrow> exn option \<times> 'os iproute" where
  "ip_route_delete P s =
     (case route_delete P (os s) of
        (r, os') \<Rightarrow> (r, s\<lparr>os := os', calls := calls s @ [Route_delete]\<rparr>))"

definition ip_route_add ::
  "'os prims \<Rightarrow> string \<Rightarrow> string option \<Rightarrow> 'os iproute \<Rightarrow> exn option \<times> 'os iproute" where
  "ip_route_add P n g s =
     (case route_add P n g (os s) of
        (r, os') \<Rightarrow> (r, s\<lparr>os := os', calls := calls s @ [Route_add n g]\<rparr>))"

subsection \<open>list_interfaces and list_default\<close>

text \<open>
  The loop of \<open>list_interfaces\<close>: an interface whose \<open>ifaddresses\<close> raises is skipped, one
  whose link is \<open>1\<close> is kept.
\<close>

fun connected :: "'os prims \<Rightarrow> 'os \<Rightarrow> string list \<Rightarrow> string list" where
  "connected P w [] = []"
| "connected P w (i # ifaces) =
     (case addr_ifaddresses P w i of
        Inl e \<Rightarrow> connected P w ifaces
      | Inr link \<Rightarrow> if 1 = link then i # connected P w ifaces else connected P w ifaces)"

text \<open>
  When \<open>ip.addr.interfaces\<close> raises, the source returns \<open>{}\<close>; the callers only test it
  for emptiness and membership, where it behaves as the empty list.
\<close>

definition list_interfaces :: "'os prims \<Rightarrow> 'os iproute \<Rightarrow> string list \<times> 'os iproute" where
  "list_interfaces P s =
     (case addr_interfaces P (os s) of
        Inl e \<Rightarrow> ([], s\<lparr>calls := calls s @ [Addr_interfaces]\<rparr>)
      | Inr ifaces \<Rightarrow>
          (connected P (os s) ifaces,
           s\<lparr>calls := calls s @ Addr_interfaces # map Addr_ifaddresses ifaces\<rparr>))"

text \<open>
  \<open>list_default\<close>: the empty dict when \<open>gws['default']\<close> is empty, else the AF_INET entry
  (a \<open>KeyError\<close> when the dict has no such entry; \<open>netifaces.AF_INET\<close> is 2).
\<close>

definition list_default :: "'os prims \<Rightarrow> 'os iproute \<Rightarrow> (exn + route) \<times> 'os iproute" where
  "list_default P s =
     (let gws = netifaces_gateways P (os s);
          s1 = s\<lparr>calls := calls s @ [Netifaces_gateways]\<rparr>
      in if gws \<noteq> [] then
           (case map_of gws AF_INET of
              None \<Rightarrow> (Inl (KeyError ''2''), s1)
            | Some (gw0, gw1) \<Rightarrow> (Inr \<lparr>interface = Some gw1, gateway = Some gw0\<rparr>, s1))
         else (Inr \<lparr>interface = None, gateway = None\<rparr>, s1))"

subsection \<open>update_default\<close>

text \<open>The loop of lines 150 to 153: the first entry of the registry with this name.\<close>

definition lookup :: "string \<Rightarrow> entry list \<Rightarrow> entry option" where
  "lookup n es = find (\<lambda>e. e_interface e = n) es"

text \<open>
  The branch "change the default gateway" (lines 140 to 164), for a request \<open>dflt\<close> whose
  "interface" is the non-empty \<open>n\<close>.
\<close>

definition change_default ::
  "'os prims \<Rightarrow> string \<Rightarrow> route \<Rightarrow> 'os iproute \<Rightarrow> (exn + unit) \<times> 'os iproute" where
  "change_default P n dflt s =
     (case list_interfaces P s of
        (ifaces, s1) \<Rightarrow>
          if ifaces = [] \<or> n \<notin> set ifaces then
            (Inl (ValueError ''Interface should be UP.''), s1)
          else if truthy (cellular s1) then
            (Inl (ValueError ''Cellular is connected, the default gatewaycannot be changed.''), s1)
          else
            (let (n', g') = (case lookup n (interfaces s1) of
                               Some iface \<Rightarrow> (e_interface iface, e_gateway iface)
                             | None \<Rightarrow> (n, gateway dflt))
             in case ip_route_delete P s1 of
                  (Some e, s2) \<Rightarrow> (Inl e, s2)
                | (None, s2) \<Rightarrow>
                    (case ip_route_add P n' g' s2 of
                       (Some e, s3) \<Rightarrow> (Inl e, s3)
                     | (None, s3) \<Rightarrow>
                         (Inr (), save (s3\<lparr>model_db := (model_db s3)(''default'' \<mapsto> n')\<rparr>)))))"

text \<open>The branch "delete the default gateway" (lines 167 to 175).\<close>

definition delete_default :: "'os prims \<Rightarrow> 'os iproute \<Rightarrow> (exn + unit) \<times> 'os iproute" where
  "delete_default P s =
     (case ip_route_delete P s of
        (Some e, s1) \<Rightarrow> (Inl e, s1)
      | (None, s1) \<Rightarrow> (Inr (), save (s1\<lparr>model_db := (model_db s1)(''default'' := None)\<rparr>)))"

text \<open>
  \<open>update_default\<close>: the first branch when "interface" is in the dict and is truthy, the
  second otherwise.
\<close>

definition update_default ::
  "'os prims \<Rightarrow> route \<Rightarrow> 'os iproute \<Rightarrow> (exn + unit) \<times> 'os iproute" where
  "update_default P dflt s =
     (case interface dflt of
        Some n \<Rightarrow> if n \<noteq> [] then change_default P n dflt s else delete_default P s
      | None \<Rightarrow> delete_default P s)"

subsection \<open>cellular_connected\<close>

definition cellular_connected ::
  "'os prims \<Rightarrow> string \<Rightarrow> bool \<Rightarrow> 'os iproute \<Rightarrow> (exn + unit) \<times> 'os iproute" where
  "cellular_connected P n up s =
     (if up then
        update_default P \<lparr>interface = Some n, gateway = None\<rparr> (s\<lparr>cellular := Some n\<rparr>)
      else
        (let s1 = s\<lparr>cellular := None\<rparr>
         in case model_db s1 ''default'' of
              None \<Rightarrow> (Inl (KeyError ''default''), s1)
            | Some d \<Rightarrow>
                if n = d then update_default P \<lparr>interface = None, gateway = None\<rparr> s1
                else (Inr (), s1)))"

subsection \<open>update_interface_router\<close>

text \<open>
  The \<open>for\<close> loop of lines 189 to 193: \<open>Some\<close> of the registry after the update and the
  entry it stopped at when it reached \<open>break\<close>, \<open>None\<close> when it ran to the end.
\<close>

fun update_router :: "entry list \<Rightarrow> string \<Rightarrow> string option \<Rightarrow> (entry list \<times> entry) option" where
  "update_router [] n g = None"
| "update_router (e # es) n g =
     (if e_interface e = n then
        (let e' = (case g of Some v \<Rightarrow> e\<lparr>e_gateway := Some v\<rparr> | None \<Rightarrow> e)
         in Some (e' # es, e'))
      else
        (case update_router es n g of
           None \<Rightarrow> None
         | Some (es', e') \<Rightarrow> Some (e # es', e')))"

text \<open>
  Lines 188 to 199, "update the router information": the loop and its \<open>else\<close> clause. The
  result is the entry \<open>iface\<close> that the rest of the method reads. \<open>interface["name"]\<close> is
  read before anything is changed, so a dict without "name" raises and changes nothing.
\<close>

definition upsert :: "iface_update \<Rightarrow> 'os iproute \<Rightarrow> (exn + entry) \<times> 'os iproute" where
  "upsert a s =
     (case name a of
        None \<Rightarrow> (Inl (KeyError ''name''), s)
      | Some n \<Rightarrow>
          (case update_router (interfaces s) n (u_gateway a) of
             Some (es, iface) \<Rightarrow> (Inr iface, s\<lparr>interfaces := es\<rparr>)
           | None \<Rightarrow>
               (let iface = \<lparr>e_interface = n, e_gateway = u_gateway a\<rparr>
                in (Inr iface, s\<lparr>interfaces := interfaces s @ [iface]\<rparr>))))"

text \<open>
  \<open>update_interface_router\<close>: the upsert, then lines 201 to 206. The \<open>try\<close> around
  \<open>update_default\<close> has a bare \<open>except: pass\<close>.
\<close>

definition update_interface_router ::
  "'os prims \<Rightarrow> iface_update \<Rightarrow> 'os iproute \<Rightarrow> (exn + unit) \<times> 'os iproute" where
  "update_interface_router P a s =
     (case upsert a s of
        (Inl e, s1) \<Rightarrow> (Inl e, s1)
      | (Inr iface, s1) \<Rightarrow>
          (case model_db s1 ''default'' of
             None \<Rightarrow> (Inl (KeyError ''default''), s1)
           | Some d \<Rightarrow>
               if e_interface iface = d then
                 (case update_default P (entry_dict iface) s1 of (r, s2) \<Rightarrow> (Inr (), s2))
               else (Inr (), s1)))"

subsection \<open>The handler _put_default\<close>

text \<open>
  The body of a request: a dict the schema accepts, or data the schema rejects with an
  exception. The schema only constrains "interface" to be a string.
\<close>

datatype message_data = Data route | Rejected exn

fun put_default_schema :: "message_data \<Rightarrow> exn + route" where
  "put_default_schema (Data d) = Inr d"
| "put_default_schema (Rejected e) = Inl e"

datatype body = Db "string \<rightharpoonup> string" | Message string

record response =
  resp_code :: nat
  resp_data :: body

text \<open>Lines 250 to 255: the recovery, whose own failure is logged and goes no further.\<close>

definition recover :: "'os prims \<Rightarrow> route \<Rightarrow> 'os iproute \<Rightarrow> 'os iproute" where
  "recover P dflt s =
     (if nonempty_dict dflt then
        (case update_default P dflt s of
           (Inr u, s1) \<Rightarrow> s1
         | (Inl e, s1) \<Rightarrow> s1\<lparr>logger := logger s1 @ [''Failed to recover the default gateway.'']\<rparr>)
      else s)"

definition put_default ::
  "'os prims \<Rightarrow> message_data \<Rightarrow> 'os iproute \<Rightarrow> (exn + response) \<times> 'os iproute" where
  "put_default P msg s =
     (case put_default_schema msg of
        Inl e \<Rightarrow>
          (Inr \<lparr>resp_code = 400,
                resp_data = Message (''Invalid input: '' @ str_exn e @ ''.'')\<rparr>, s)
      | Inr d \<Rightarrow>
          (case list_default P s of
             (Inl e, s0) \<Rightarrow> (Inl e, s0)
           | (Inr dflt, s0) \<Rightarrow>
               (case update_default P d s0 of
                  (Inr u, s1) \<Rightarrow> (Inr \<lparr>resp_code = 200, resp_data = Db (model_db s1)\<rparr>, s1)
                | (Inl e, s1) \<Rightarrow>
                    (let s2 = recover P dflt s1;
                         m = ''Update default gateway failed: '' @ str_exn e;
                         s3 = s2\<lparr>logger := logger s2 @ [m]\<rparr>
                     in (Inr \<lparr>resp_code = 404, resp_data = Message m\<rparr>, s3)))))"

subsection \<open>A test double for the network primitives\<close>

text \<open>
  Modelled from the spec: the Network Primitives collaborator (modules \<open>ip\<close> and
  \<open>netifaces\<close> are not in the sources). \<open>links\<close> lists the interfaces with their link
  state, \<open>default_route\<close> is the (gateway, interface) pair the operating system reports as
  its default route, and \<open>delete_results\<close> and \<open>add_results\<close> script the outcomes of the
  coming calls of the two mutating primitives (an exhausted script means success).
  Removing an absent default route succeeds.
\<close>

record stub_os =
  links :: "(string \<times> int) list"
  default_route :: "(string \<times> string) option"
  delete_results :: "exn option list"
  add_results :: "exn option list"

definition stub_interfaces :: "stub_os \<Rightarrow> exn + string list" where
  "stub_interfaces w = Inr (map fst (links w))"

definition stub_ifaddresses :: "stub_os \<Rightarrow> string \<Rightarrow> exn + int" where
  "stub_ifaddresses w i =
     (case map_of (links w) i of
        None \<Rightarrow> Inl (Exception ''no such interface'')
      | Some l \<Rightarrow> Inr l)"

fun stub_delete :: "stub_os \<Rightarrow> exn option \<times> stub_os" where
  "stub_delete w =
     (case delete_results w of
        [] \<Rightarrow> (None, w\<lparr>default_route := None\<rparr>)
      | None # rs \<Rightarrow> (None, w\<lparr>default_route := None, delete_results := rs\<rparr>)
      | Some e # rs \<Rightarrow> (Some e, w\<lparr>delete_results := rs\<rparr>))"

fun stub_add :: "string \<Rightarrow> string option \<Rightarrow> stub_os \<Rightarrow> exn option \<times> stub_os" where
  "stub_add n g w =
     (let gw = (case g of None \<Rightarrow> [] | Some v \<Rightarrow> v)
      in case add_results w of
           [] \<Rightarrow> (None, w\<lparr>default_route := Some (gw, n)\<rparr>)
         | None # rs \<Rightarrow> (None, w\<lparr>default_route := Some (gw, n), add_results := rs\<rparr>)
         | Some e # rs \<Rightarrow> (Some e, w\<lparr>add_results := rs\<rparr>))"

definition stub_gateways :: "stub_os \<Rightarrow> (family \<times> string \<times> string) list" where
  "stub_gateways w = (case default_route w of None \<Rightarrow> [] | Some r \<Rightarrow> [(AF_INET, r)])"

definition stub :: "stub_os prims" where
  "stub = \<lparr>addr_interfaces = stub_interfaces, addr_ifaddresses = stub_ifaddresses,
           route_delete = stub_delete, route_add = stub_add,
           netifaces_gateways = stub_gateways\<rparr>"

text \<open>
  A host with \<open>eth0\<close> and \<open>ppp0\<close> up and \<open>eth1\<close> down, whose default route goes through
  \<open>eth0\<close>, and an object just created: no cellular interface, an empty registry.
\<close>

definition host :: stub_os where
  "host = \<lparr>links = [(''eth0'', 1), (''eth1'', 0), (''ppp0'', 1)],
           default_route = Some (''10.0.0.1'', ''eth0''),
           delete_results = [], add_results = []\<rparr>"

definition fresh :: "(string \<rightharpoonup> string) \<Rightarrow> stub_os \<Rightarrow> stub_os iproute" where
  "fresh m w = \<lparr>cellular = None, interfaces = [], model_db = m, saved_db = m,
                backup_db = m, os = w, calls = [], logger = []\<rparr>"

text \<open>The same host while the cellular interface \<open>ppp0\<close> is connected.\<close>

definition locked :: "stub_os iproute" where
  "locked = (fresh [''default'' \<mapsto> ''ppp0''] host)\<lparr>cellular := Some ''ppp0''\<rparr>"

text \<open>The same host after the gateway of \<open>eth0\<close> has been registered.\<close>

definition registered :: "stub_os iproute" where
  "registered = (fresh Map.empty host)\<lparr>interfaces :=
     [\<lparr>e_interface = ''eth0'', e_gateway = Some ''10.0.0.1''\<rparr>]\<rparr>"

text \<open>
  The object on that host with \<open>eth0\<close> as its persisted default; with the persisted
  default \<open>ppp0\<close> on a host whose default route is the cellular one; with the persisted
  default \<open>eth1\<close>, which is down; and with \<open>eth0\<close> both registered and persisted.
\<close>

definition wired :: "stub_os iproute" where
  "wired = fresh [''default'' \<mapsto> ''eth0''] host"

definition dialled :: "stub_os iproute" where
  "dialled = fresh [''default'' \<mapsto> ''ppp0'']
     (host\<lparr>default_route := Some ([], ''ppp0'')\<rparr>)"

definition stale :: "stub_os iproute" where
  "stale = fresh [''default'' \<mapsto> ''eth1''] host"

definition reapplied :: "stub_os iproute" where
  "reapplied = registered\<lparr>model_db := [''default'' \<mapsto> ''eth0'']\<rparr>"

text \<open>
  Objects with an empty configuration: on a host without a default route, where the
  delete raises; on the host above when the next delete raises; and on the host above
  when the next add raises. The last one again with \<open>eth0\<close> persisted.
\<close>

definition routeless :: "stub_os iproute" where
  "routeless = fresh Map.empty
     (host\<lparr>default_route := None,
           delete_results := [Some (Exception ''RTNETLINK answers: No such process'')]\<rparr>)"

definition busy :: "stub_os iproute" where
  "busy = fresh Map.empty (host\<lparr>delete_results := [Some (Exception ''busy'')]\<rparr>)"

definition unpersisted :: "stub_os iproute" where
  "unpersisted = fresh Map.empty
     (host\<lparr>add_results := [Some (Exception ''Network is unreachable'')]\<rparr>)"

definition flaky :: "stub_os iproute" where
  "flaky = fresh [''default'' \<mapsto> ''eth0'']
     (host\<lparr>add_results := [Some (Exception ''Network is unreachable'')]\<rparr>)"

section \<open>Properties\<close>

subsection \<open>The up-check\<close>

text \<open>\<open>list_interfaces\<close> only queries: it adds query calls and changes nothing else.\<close>

lemma list_interfaces_queries:
  "\<exists>qs. list_all is_query qs \<and> snd (list_interfaces P s) = s\<lparr>calls := calls s @ qs\<rparr>"
proof (cases "addr_interfaces P (os s)")
  case (Inl e)
  then have "snd (list_interfaces P s) = s\<lparr>calls := calls s @ [Addr_interfaces]\<rparr>"
    by (simp add: list_interfaces_def)
  moreover have "list_all is_query [Addr_interfaces]" by simp
  ultimately show ?thesis by blast
next
  case (Inr ifaces)
  then have "snd (list_interfaces P s)
      = s\<lparr>calls := calls s @ Addr_interfaces # map Addr_ifaddresses ifaces\<rparr>"
    by (simp add: list_interfaces_def)
  moreover have "list_all is_query (Addr_interfaces # map Addr_ifaddresses ifaces)"
    by (simp add: list_all_iff)
  ultimately show ?thesis by blast
qed

lemma list_interfaces_cellular: "cellular (snd (list_interfaces P s)) = cellular s"
  by (simp add: list_interfaces_def split: sum.splits)

lemma list_interfaces_registry: "interfaces (snd (list_interfaces P s)) = interfaces s"
  by (simp add: list_interfaces_def split: sum.splits)

lemma up_host: "fst (list_interfaces stub (fresh m host)) = [''eth0'', ''ppp0'']"
  by (simp add: list_interfaces_def stub_def stub_interfaces_def stub_ifaddresses_def
      host_def fresh_def)

subsection \<open>The guards of update_default\<close>

lemma change_default_down:
  assumes "n \<notin> set (fst (list_interfaces P s))"
  shows "change_default P n d s
    = (Inl (ValueError ''Interface should be UP.''), snd (list_interfaces P s))"
proof -
  obtain ifaces s1 where l: "list_interfaces P s = (ifaces, s1)"
    by (cases "list_interfaces P s")
  with assms have "n \<notin> set ifaces" by simp
  then show ?thesis using l by (simp add: change_default_def)
qed

lemma change_default_locked:
  assumes "n \<in> set (fst (list_interfaces P s))" and "truthy (cellular s)"
  shows "change_default P n d s =
    (Inl (ValueError ''Cellular is connected, the default gatewaycannot be changed.''),
     snd (list_interfaces P s))"
proof -
  obtain ifaces s1 where l: "list_interfaces P s = (ifaces, s1)"
    by (cases "list_interfaces P s")
  with assms(1) have "ifaces \<noteq> []" "n \<in> set ifaces" by auto
  moreover from l assms(2) have "truthy (cellular s1)"
    using list_interfaces_cellular [of P s] by simp
  ultimately show ?thesis using l by (simp add: change_default_def)
qed

text \<open>
  C4. A request that names an interface (a non-empty name \<open>n\<close>) which is not among the
  interfaces \<open>list_interfaces\<close> reports as up raises \<open>ValueError("Interface should be
  UP.")\<close>. The state it leaves is the state before the call with query calls added:
  no route was deleted or added, and the persisted configuration and the operating
  system, so its default route, are as they were.
\<close>

theorem update_default_interface_down:
  assumes "interface d = Some n" and "n \<noteq> []"
    and "n \<notin> set (fst (list_interfaces P s))"
  shows "\<exists>qs. list_all is_query qs \<and>
           update_default P d s =
             (Inl (ValueError ''Interface should be UP.''), s\<lparr>calls := calls s @ qs\<rparr>)"
proof -
  have "update_default P d s = change_default P n d s"
    using assms(1,2) by (simp add: update_default_def)
  then have "update_default P d s
      = (Inl (ValueError ''Interface should be UP.''), snd (list_interfaces P s))"
    using change_default_down [OF assms(3)] by simp
  then show ?thesis using list_interfaces_queries [of P s] by auto
qed

text \<open>On the host above, \<open>eth1\<close> is down.\<close>

theorem update_default_interface_down_witness:
  "interface \<lparr>interface = Some ''eth1'', gateway = None\<rparr> = Some ''eth1'' \<and> ''eth1'' \<noteq> [] \<and>
   ''eth1'' \<notin> set (fst (list_interfaces stub (fresh Map.empty host))) \<and>
   (\<exists>qs. list_all is_query qs \<and>
      update_default stub \<lparr>interface = Some ''eth1'', gateway = None\<rparr> (fresh Map.empty host) =
        (Inl (ValueError ''Interface should be UP.''),
         (fresh Map.empty host)\<lparr>calls := calls (fresh Map.empty host) @ qs\<rparr>))"
proof -
  have h1: "interface \<lparr>interface = Some ''eth1'', gateway = None\<rparr> = Some ''eth1''" by simp
  have h2: "''eth1'' \<noteq> []" by simp
  have h3: "''eth1'' \<notin> set (fst (list_interfaces stub (fresh Map.empty host)))"
    by (simp add: up_host)
  show ?thesis using update_default_interface_down [OF h1 h2 h3] h1 h2 h3 by blast
qed

text \<open>
  C5. While a cellular interface \<open>x\<close> is connected (\<open>self.cellular\<close> is a non-empty
  name), a request for an up interface \<open>y\<close> raises \<open>ValueError("Cellular is connected,
  ...")\<close>; this holds for every such \<open>y\<close>, so for each \<open>y \<noteq> x\<close>. The state it leaves is
  the state after the up-check, which is the state before the call with query calls
  added: no route primitive was called, and the operating system and the persisted
  configuration are as they were.
\<close>

theorem update_default_cellular_locked:
  assumes "cellular s = Some x" and "x \<noteq> []"
    and "interface d = Some y" and "y \<noteq> []"
    and "y \<in> set (fst (list_interfaces P s))"
  shows "update_default P d s =
           (Inl (ValueError ''Cellular is connected, the default gatewaycannot be changed.''),
            snd (list_interfaces P s)) \<and>
         (\<exists>qs. list_all is_query qs \<and>
            snd (list_interfaces P s) = s\<lparr>calls := calls s @ qs\<rparr>)"
proof -
  have "update_default P d s = change_default P y d s"
    using assms(3,4) by (simp add: update_default_def)
  moreover have "truthy (cellular s)" using assms(1,2) by simp
  ultimately show ?thesis
    using change_default_locked [OF assms(5)] list_interfaces_queries [of P s] by simp
qed

lemma up_locked: "fst (list_interfaces stub locked) = [''eth0'', ''ppp0'']"
  by (simp add: list_interfaces_def stub_def stub_interfaces_def stub_ifaddresses_def
      host_def fresh_def locked_def)

text \<open>With \<open>ppp0\<close> connected, a request for \<open>eth0\<close>, which is up.\<close>

theorem update_default_cellular_locked_witness:
  "cellular locked = Some ''ppp0'' \<and> ''ppp0'' \<noteq> [] \<and>
   interface \<lparr>interface = Some ''eth0'', gateway = None\<rparr> = Some ''eth0'' \<and> ''eth0'' \<noteq> [] \<and>
   ''eth0'' \<in> set (fst (list_interfaces stub locked)) \<and>
   update_default stub \<lparr>interface = Some ''eth0'', gateway = None\<rparr> locked =
     (Inl (ValueError ''Cellular is connected, the default gatewaycannot be changed.''),
      snd (list_interfaces stub locked)) \<and>
   (\<exists>qs. list_all is_query qs \<and>
      snd (list_interfaces stub locked) = locked\<lparr>calls := calls locked @ qs\<rparr>)"
proof -
  have h1: "cellular locked = Some ''ppp0''" by (simp add: locked_def)
  have h2: "''ppp0'' \<noteq> []" by simp
  have h3: "interface \<lparr>interface = Some ''eth0'', gateway = None\<rparr> = Some ''eth0''" by simp
  have h4: "''eth0'' \<noteq> []" by simp
  have h5: "''eth0'' \<in> set (fst (list_interfaces stub locked))" by (simp add: up_locked)
  show ?thesis using update_default_cellular_locked [OF h1 h2 h3 h4 h5] h1 h2 h3 h4 h5 by blast
qed

subsection \<open>A successful change\<close>

lemma lookup_distinct:
  assumes "e \<in> set es" and "distinct (map e_interface es)"
  shows "lookup (e_interface e) es = Some e"
  using assms unfolding lookup_def
proof (induction es)
  case Nil
  then show ?case by simp
next
  case (Cons a es)
  then show ?case by (cases "a = e") (auto simp: image_iff)
qed

text \<open>
  What a successful run of the first branch did: the up-check, one delete, one add for
  the resolved interface and gateway, and the save of the new "default".
\<close>

lemma change_default_Inr:
  assumes "change_default P n d s = (Inr (), s')"
  shows "\<exists>n' g'. (case lookup n (interfaces s) of
                    Some iface \<Rightarrow> (e_interface iface, e_gateway iface)
                  | None \<Rightarrow> (n, gateway d)) = (n', g') \<and>
           calls s' = calls (snd (list_interfaces P s))
                        @ [Route_delete, Route_add n' g', Save_db, Backup_db] \<and>
           model_db s' = (model_db s)(''default'' \<mapsto> n') \<and>
           saved_db s' = model_db s' \<and> backup_db s' = model_db s' \<and>
           n \<in> set (fst (list_interfaces P s)) \<and> \<not> truthy (cellular s)"
proof -
  obtain ifaces s1 where l: "list_interfaces P s = (ifaces, s1)"
    by (cases "list_interfaces P s")
  have s1: "interfaces s1 = interfaces s" "cellular s1 = cellular s" "model_db s1 = model_db s"
    using l list_interfaces_registry [of P s] list_interfaces_cellular [of P s]
      list_interfaces_queries [of P s] by auto
  obtain n' g' where r: "(case lookup n (interfaces s) of
                    Some iface \<Rightarrow> (e_interface iface, e_gateway iface)
                  | None \<Rightarrow> (n, gateway d)) = (n', g')"
    by (cases "case lookup n (interfaces s) of
                    Some iface \<Rightarrow> (e_interface iface, e_gateway iface)
                  | None \<Rightarrow> (n, gateway d)")
  from assms l s1 r have g: "n \<in> set ifaces" "\<not> truthy (cellular s)"
    by (auto simp: change_default_def split: if_splits)
  obtain r2 s2 where d2: "ip_route_delete P s1 = (r2, s2)" by (cases "ip_route_delete P s1")
  obtain r3 s3 where d3: "ip_route_add P n' g' s2 = (r3, s3)" by (cases "ip_route_add P n' g' s2")
  from assms l s1 r g d2 d3 have ok: "r2 = None" "r3 = None"
    and s': "s' = save (s3\<lparr>model_db := (model_db s3)(''default'' \<mapsto> n')\<rparr>)"
    by (auto simp: change_default_def split: if_splits option.splits)
  from d2 have c2: "calls s2 = calls s1 @ [Route_delete]" "model_db s2 = model_db s1"
    by (auto simp: ip_route_delete_def split: prod.splits)
  from d3 have c3: "calls s3 = calls s2 @ [Route_add n' g']" "model_db s3 = model_db s2"
    by (auto simp: ip_route_add_def split: prod.splits)
  show ?thesis using r s' c2 c3 s1 g l by (simp add: save_def)
qed


text \<open>
  C3. The registry holds the entry \<open>{interface: n, gateway: g}\<close> (its names are
  distinct, as \<open>update_interface_router\<close> keeps them). A request for the non-empty \<open>n\<close>
  with any gateway \<open>g'\<close> of its own, or none, that succeeds has called
  \<open>ip.route.add("default", n, g)\<close> after the delete: the registered gateway, not the
  caller's. The persisted configuration is the one before with "default" set to \<open>n\<close>
  (the key route.py keeps the interface under); no gateway is written to it.
\<close>

theorem update_default_registry_gateway:
  assumes "n \<noteq> []"
    and "\<lparr>e_interface = n, e_gateway = Some g\<rparr> \<in> set (interfaces s)"
    and "distinct (map e_interface (interfaces s))"
    and "fst (update_default P \<lparr>interface = Some n, gateway = g'\<rparr> s) = Inr ()"
  shows "calls (snd (update_default P \<lparr>interface = Some n, gateway = g'\<rparr> s)) =
           calls (snd (list_interfaces P s))
             @ [Route_delete, Route_add n (Some g), Save_db, Backup_db] \<and>
         model_db (snd (update_default P \<lparr>interface = Some n, gateway = g'\<rparr> s)) =
           (model_db s)(''default'' \<mapsto> n) \<and>
         saved_db (snd (update_default P \<lparr>interface = Some n, gateway = g'\<rparr> s)) =
           (model_db s)(''default'' \<mapsto> n) \<and>
         backup_db (snd (update_default P \<lparr>interface = Some n, gateway = g'\<rparr> s)) =
           (model_db s)(''default'' \<mapsto> n)"
proof -
  let ?d = "\<lparr>interface = Some n, gateway = g'\<rparr>"
  have u: "update_default P ?d s = change_default P n ?d s"
    using assms(1) by (simp add: update_default_def)
  with assms(4) have "change_default P n ?d s = (Inr (), snd (update_default P ?d s))"
    by (metis prod.collapse)
  from change_default_Inr [OF this]
  obtain n' g'' where r: "(case lookup n (interfaces s) of
                    Some iface \<Rightarrow> (e_interface iface, e_gateway iface)
                  | None \<Rightarrow> (n, gateway ?d)) = (n', g'')"
    and c: "calls (snd (update_default P ?d s)) = calls (snd (list_interfaces P s))
                        @ [Route_delete, Route_add n' g'', Save_db, Backup_db]"
    and m: "model_db (snd (update_default P ?d s)) = (model_db s)(''default'' \<mapsto> n')"
      "saved_db (snd (update_default P ?d s)) = model_db (snd (update_default P ?d s))"
      "backup_db (snd (update_default P ?d s)) = model_db (snd (update_default P ?d s))"
    by blast
  have "lookup n (interfaces s) = Some \<lparr>e_interface = n, e_gateway = Some g\<rparr>"
    using lookup_distinct [OF assms(2,3)] by simp
  with r have "n' = n" "g'' = Some g" by auto
  with c m show ?thesis by simp
qed

text \<open>The registry has 10.0.0.1 for \<open>eth0\<close>; the caller asks for 192.168.1.1.\<close>

lemma registered_run:
  "fst (update_default stub \<lparr>interface = Some ''eth0'', gateway = Some ''192.168.1.1''\<rparr> registered) = Inr ()"
  by (simp add: update_default_def change_default_def list_interfaces_def stub_def
      stub_interfaces_def stub_ifaddresses_def host_def fresh_def registered_def lookup_def
      ip_route_delete_def ip_route_add_def save_def)

theorem update_default_registry_gateway_witness:
  "''eth0'' \<noteq> [] \<and>
   \<lparr>e_interface = ''eth0'', e_gateway = Some ''10.0.0.1''\<rparr> \<in> set (interfaces registered) \<and>
   distinct (map e_interface (interfaces registered)) \<and>
   fst (update_default stub \<lparr>interface = Some ''eth0'', gateway = Some ''192.168.1.1''\<rparr>
     registered) = Inr () \<and>
   calls (snd (update_default stub \<lparr>interface = Some ''eth0'', gateway = Some ''192.168.1.1''\<rparr>
     registered)) =
     calls (snd (list_interfaces stub registered))
       @ [Route_delete, Route_add ''eth0'' (Some ''10.0.0.1''), Save_db, Backup_db] \<and>
   model_db (snd (update_default stub \<lparr>interface = Some ''eth0'', gateway = Some ''192.168.1.1''\<rparr>
     registered)) = (model_db registered)(''default'' \<mapsto> ''eth0'')"
proof -
  have h1: "''eth0'' \<noteq> []" by simp
  have h2: "\<lparr>e_interface = ''eth0'', e_gateway = Some ''10.0.0.1''\<rparr> \<in> set (interfaces registered)"
    by (simp add: registered_def)
  have h3: "distinct (map e_interface (interfaces registered))" by (simp add: registered_def)
  note h4 = registered_run
  show ?thesis using update_default_registry_gateway [OF h1 h2 h3 h4] h1 h2 h3 h4 by blast
qed

subsection \<open>The registry\<close>

text \<open>The loop of \<open>update_interface_router\<close> against \<open>lookup\<close>.\<close>

lemma update_router_None: "(update_router es n g = None) = (lookup n es = None)"
  by (induction es) (auto simp: lookup_def Let_def split: option.splits)

lemma update_router_Some:
  assumes "update_router es n g = Some (es', e')"
  shows "\<exists>old. lookup n es = Some old \<and>
           e' = (case g of Some v \<Rightarrow> old\<lparr>e_gateway := Some v\<rparr> | None \<Rightarrow> old) \<and>
           lookup n es' = Some e' \<and>
           (\<forall>m. m \<noteq> n \<longrightarrow> lookup m es' = lookup m es) \<and>
           map e_interface es' = map e_interface es"
  using assms
proof (induction es arbitrary: es')
  case Nil
  then show ?case by simp
next
  case (Cons a es)
  show ?case
  proof (cases "e_interface a = n")
    case True
    with Cons.prems show ?thesis
      by (auto simp: lookup_def Let_def split: option.splits)
  next
    case False
    with Cons.prems obtain es1 where u: "update_router es n g = Some (es1, e')"
      and es': "es' = a # es1"
      by (auto split: option.splits)
    from Cons.IH [OF u] False es' show ?thesis
      by (auto simp: lookup_def)
  qed
qed

lemma update_router_keep:
  "update_router es n None = Some (es', e') \<Longrightarrow> es' = es"
  by (induction es arbitrary: es') (auto split: if_splits option.splits)

lemma lookup_name: "lookup n es = Some e \<Longrightarrow> e_interface e = n"
  unfolding lookup_def by (induction es) (auto split: if_splits)

lemma lookup_append_new:
  "lookup n es = None \<Longrightarrow> lookup m (es @ [e]) = (if e_interface e = m then (if m = n then Some e else (case lookup m es of None \<Rightarrow> Some e | Some x \<Rightarrow> Some x)) else lookup m es)"
  unfolding lookup_def by (induction es) (auto split: if_splits)

text \<open>
  C9. The upsert for a name \<open>n\<close> (lines 188 to 199) never raises and changes only
  \<open>self.interfaces\<close>: the state it leaves is the state before with a new registry, so
  it made no call to the store or to the network primitives. Afterwards \<open>n\<close> is
  registered, and every other name is registered as before. When \<open>n\<close> had no entry, one
  is appended, with the gateway of the update when it carries one and none otherwise.
  When \<open>n\<close> had an entry \<open>old\<close>, no entry is added or renamed: an update without a
  gateway leaves the whole registry as it was, and one with a gateway \<open>v\<close> makes the
  entry \<open>old\<close> with its gateway replaced by \<open>v\<close>.
\<close>

theorem upsert_registry:
  assumes "name a = Some n"
  shows "\<exists>iface. fst (upsert a s) = Inr iface \<and>
           snd (upsert a s) = s\<lparr>interfaces := interfaces (snd (upsert a s))\<rparr> \<and>
           lookup n (interfaces (snd (upsert a s))) = Some iface \<and>
           (\<forall>m. m \<noteq> n \<longrightarrow> lookup m (interfaces (snd (upsert a s))) = lookup m (interfaces s)) \<and>
           (case lookup n (interfaces s) of
              None \<Rightarrow>
                iface = \<lparr>e_interface = n, e_gateway = u_gateway a\<rparr> \<and>
                interfaces (snd (upsert a s)) = interfaces s @ [iface]
            | Some old \<Rightarrow>
                map e_interface (interfaces (snd (upsert a s))) = map e_interface (interfaces s) \<and>
                (case u_gateway a of
                   None \<Rightarrow> iface = old \<and> interfaces (snd (upsert a s)) = interfaces s
                 | Some v \<Rightarrow> iface = old\<lparr>e_gateway := Some v\<rparr>))"
proof (cases "update_router (interfaces s) n (u_gateway a)")
  case None
  then have l: "lookup n (interfaces s) = None" by (simp add: update_router_None)
  let ?e = "\<lparr>e_interface = n, e_gateway = u_gateway a\<rparr>"
  have u: "upsert a s = (Inr ?e, s\<lparr>interfaces := interfaces s @ [?e]\<rparr>)"
    using assms None by (simp add: upsert_def Let_def)
  have "lookup n (interfaces s @ [?e]) = Some ?e"
    using lookup_append_new [OF l, of n ?e] by simp
  moreover have "\<forall>m. m \<noteq> n \<longrightarrow> lookup m (interfaces s @ [?e]) = lookup m (interfaces s)"
    using lookup_append_new [OF l, of _ ?e] by simp
  ultimately show ?thesis using u l by simp
next
  case (Some r)
  obtain es' e' where r: "r = (es', e')" by (cases r)
  with Some have us: "update_router (interfaces s) n (u_gateway a) = Some (es', e')" by simp
  have u: "upsert a s = (Inr e', s\<lparr>interfaces := es'\<rparr>)"
    using assms us by (simp add: upsert_def)
  from update_router_Some [OF us] obtain old where
    old: "lookup n (interfaces s) = Some old"
    and e': "e' = (case u_gateway a of Some v \<Rightarrow> old\<lparr>e_gateway := Some v\<rparr> | None \<Rightarrow> old)"
    and l: "lookup n es' = Some e'"
    and f: "\<forall>m. m \<noteq> n \<longrightarrow> lookup m es' = lookup m (interfaces s)"
    and m: "map e_interface es' = map e_interface (interfaces s)"
    by blast
  have k: "u_gateway a = None \<Longrightarrow> es' = interfaces s"
    using us update_router_keep by metis
  show ?thesis using u old e' l f m k by (auto split: option.splits)
qed

text \<open>The names of the registry stay distinct.\<close>

lemma upsert_distinct:
  assumes "distinct (map e_interface (interfaces s))"
  shows "distinct (map e_interface (interfaces (snd (upsert a s))))"
proof (cases "name a")
  case None
  then show ?thesis using assms by (simp add: upsert_def)
next
  case (Some n)
  show ?thesis
  proof (cases "update_router (interfaces s) n (u_gateway a)")
    case None
    then have "lookup n (interfaces s) = None" by (simp add: update_router_None)
    then have "n \<notin> e_interface ` set (interfaces s)"
      by (auto simp: lookup_def find_None_iff)
    then show ?thesis using assms Some None by (simp add: upsert_def Let_def)
  next
    case (Some r)
    obtain es' e' where "r = (es', e')" by (cases r)
    with Some have us: "update_router (interfaces s) n (u_gateway a) = Some (es', e')" by simp
    from update_router_Some [OF us] have "map e_interface es' = map e_interface (interfaces s)"
      by blast
    then show ?thesis using assms \<open>name a = Some n\<close> us by (simp add: upsert_def)
  qed
qed


text \<open>
  On the registry that has 10.0.0.1 for \<open>eth0\<close>: an update of \<open>eth0\<close> without a gateway,
  one with the gateway 10.0.0.2, and an update of the unknown \<open>eth1\<close>.
\<close>

theorem upsert_registry_witness:
  "name \<lparr>name = Some ''eth0'', u_gateway = None\<rparr> = Some ''eth0'' \<and>
   interfaces (snd (upsert \<lparr>name = Some ''eth0'', u_gateway = None\<rparr> registered)) =
     interfaces registered \<and>
   lookup ''eth0'' (interfaces (snd (upsert \<lparr>name = Some ''eth0'', u_gateway = None\<rparr> registered))) =
     Some \<lparr>e_interface = ''eth0'', e_gateway = Some ''10.0.0.1''\<rparr> \<and>
   name \<lparr>name = Some ''eth0'', u_gateway = Some ''10.0.0.2''\<rparr> = Some ''eth0'' \<and>
   lookup ''eth0''
     (interfaces (snd (upsert \<lparr>name = Some ''eth0'', u_gateway = Some ''10.0.0.2''\<rparr> registered))) =
     Some \<lparr>e_interface = ''eth0'', e_gateway = Some ''10.0.0.2''\<rparr> \<and>
   name \<lparr>name = Some ''eth1'', u_gateway = None\<rparr> = Some ''eth1'' \<and>
   interfaces (snd (upsert \<lparr>name = Some ''eth1'', u_gateway = None\<rparr> registered)) =
     interfaces registered @ [\<lparr>e_interface = ''eth1'', e_gateway = None\<rparr>]"
proof -
  have h1: "name \<lparr>name = Some ''eth0'', u_gateway = None\<rparr> = Some ''eth0''" by simp
  have h2: "name \<lparr>name = Some ''eth0'', u_gateway = Some ''10.0.0.2''\<rparr> = Some ''eth0''" by simp
  have h3: "name \<lparr>name = Some ''eth1'', u_gateway = None\<rparr> = Some ''eth1''" by simp
  have l0: "lookup ''eth0'' (interfaces registered) =
      Some \<lparr>e_interface = ''eth0'', e_gateway = Some ''10.0.0.1''\<rparr>"
    by (simp add: lookup_def registered_def)
  have l1: "lookup ''eth1'' (interfaces registered) = None"
    by (simp add: lookup_def registered_def)
  from upsert_registry [OF h1, of registered] l0
  have c1: "interfaces (snd (upsert \<lparr>name = Some ''eth0'', u_gateway = None\<rparr> registered)) =
     interfaces registered"
    "lookup ''eth0'' (interfaces (snd (upsert \<lparr>name = Some ''eth0'', u_gateway = None\<rparr> registered))) =
     Some \<lparr>e_interface = ''eth0'', e_gateway = Some ''10.0.0.1''\<rparr>"
    by auto
  from upsert_registry [OF h2, of registered] l0
  have c2: "lookup ''eth0''
     (interfaces (snd (upsert \<lparr>name = Some ''eth0'', u_gateway = Some ''10.0.0.2''\<rparr> registered))) =
     Some \<lparr>e_interface = ''eth0'', e_gateway = Some ''10.0.0.2''\<rparr>"
    by auto
  from upsert_registry [OF h3, of registered] l1
  have c3: "interfaces (snd (upsert \<lparr>name = Some ''eth1'', u_gateway = None\<rparr> registered)) =
     interfaces registered @ [\<lparr>e_interface = ''eth1'', e_gateway = None\<rparr>]"
    by auto
  show ?thesis using h1 h2 h3 c1 c2 c3 by blast
qed

subsection \<open>A configuration without "default"\<close>

lemma upsert_Inr:
  assumes "name a = Some n"
  shows "\<exists>iface es. upsert a s = (Inr iface, s\<lparr>interfaces := es\<rparr>) \<and> lookup n es = Some iface"
proof (cases "update_router (interfaces s) n (u_gateway a)")
  case None
  then have l: "lookup n (interfaces s) = None" by (simp add: update_router_None)
  let ?e = "\<lparr>e_interface = n, e_gateway = u_gateway a\<rparr>"
  have "upsert a s = (Inr ?e, s\<lparr>interfaces := interfaces s @ [?e]\<rparr>)"
    using assms None by (simp add: upsert_def Let_def)
  moreover have "lookup n (interfaces s @ [?e]) = Some ?e"
    using lookup_append_new [OF l, of n ?e] by simp
  ultimately show ?thesis by blast
next
  case (Some r)
  obtain es' e' where "r = (es', e')" by (cases r)
  with Some have us: "update_router (interfaces s) n (u_gateway a) = Some (es', e')" by simp
  have "upsert a s = (Inr e', s\<lparr>interfaces := es'\<rparr>)"
    using assms us by (simp add: upsert_def)
  moreover from update_router_Some [OF us] have "lookup n es' = Some e'" by blast
  ultimately show ?thesis by blast
qed

text \<open>
  C10. When the persisted configuration has no "default" key,
  \<open>update_interface_router\<close> for any name \<open>n\<close> raises \<open>KeyError('default')\<close> out of the
  method, after the registry has been updated (\<open>n\<close> is registered in the state it
  leaves, which is otherwise the state before), and \<open>cellular_connected(m, up=False)\<close>
  raises \<open>KeyError('default')\<close> out of the method, after \<open>self.cellular\<close> has been set
  to \<open>None\<close>.
\<close>

theorem no_default_key_raises:
  assumes "model_db s ''default'' = None" and "name a = Some n"
  shows "\<exists>es. update_interface_router P a s =
                (Inl (KeyError ''default''), s\<lparr>interfaces := es\<rparr>) \<and>
              lookup n es \<noteq> None \<and>
              cellular_connected P m False s =
                (Inl (KeyError ''default''), s\<lparr>cellular := None\<rparr>)"
proof -
  from upsert_Inr [OF assms(2), of s] obtain iface es where
    u: "upsert a s = (Inr iface, s\<lparr>interfaces := es\<rparr>)" and l: "lookup n es = Some iface"
    by blast
  from u assms(1)
  have "update_interface_router P a s = (Inl (KeyError ''default''), s\<lparr>interfaces := es\<rparr>)"
    by (simp add: update_interface_router_def)
  moreover have "cellular_connected P m False s =
      (Inl (KeyError ''default''), s\<lparr>cellular := None\<rparr>)"
    using assms(1) by (simp add: cellular_connected_def)
  ultimately show ?thesis using l by auto
qed

text \<open>An object whose configuration is empty.\<close>

theorem no_default_key_raises_witness:
  "model_db (fresh Map.empty host) ''default'' = None \<and>
   name \<lparr>name = Some ''eth0'', u_gateway = Some ''10.0.0.2''\<rparr> = Some ''eth0'' \<and>
   (\<exists>es. update_interface_router stub \<lparr>name = Some ''eth0'', u_gateway = Some ''10.0.0.2''\<rparr>
          (fresh Map.empty host) =
            (Inl (KeyError ''default''), (fresh Map.empty host)\<lparr>interfaces := es\<rparr>) \<and>
         lookup ''eth0'' es \<noteq> None) \<and>
   cellular_connected stub ''ppp0'' False (fresh Map.empty host) =
     (Inl (KeyError ''default''), (fresh Map.empty host)\<lparr>cellular := None\<rparr>)"
proof -
  have h1: "model_db (fresh Map.empty host) ''default'' = None" by (simp add: fresh_def)
  have h2: "name \<lparr>name = Some ''eth0'', u_gateway = Some ''10.0.0.2''\<rparr> = Some ''eth0''" by simp
  show ?thesis using no_default_key_raises [OF h1 h2, of stub "''ppp0''"] h1 h2 by blast
qed

subsection \<open>What update_default leaves\<close>

lemma ip_route_delete_frame:
  "snd (ip_route_delete P s) =
     s\<lparr>os := snd (route_delete P (os s)), calls := calls s @ [Route_delete]\<rparr>"
  "fst (ip_route_delete P s) = fst (route_delete P (os s))"
  by (simp_all add: ip_route_delete_def split: prod.splits)

lemma ip_route_add_frame:
  "snd (ip_route_add P n g s) =
     s\<lparr>os := snd (route_add P n g (os s)), calls := calls s @ [Route_add n g]\<rparr>"
  "fst (ip_route_add P n g s) = fst (route_add P n g (os s))"
  by (simp_all add: ip_route_add_def split: prod.splits)

lemma delete_default_fails:
  assumes "fst (route_delete P (os s)) = Some e"
  shows "delete_default P s =
    (Inl e, s\<lparr>os := snd (route_delete P (os s)), calls := calls s @ [Route_delete]\<rparr>)"
proof -
  have "ip_route_delete P s =
      (Some e, s\<lparr>os := snd (route_delete P (os s)), calls := calls s @ [Route_delete]\<rparr>)"
    using assms ip_route_delete_frame [of P s] by (metis prod.collapse)
  then show ?thesis by (simp add: delete_default_def)
qed

lemma delete_default_succeeds:
  assumes "fst (route_delete P (os s)) = None"
  shows "delete_default P s =
    (Inr (), s\<lparr>os := snd (route_delete P (os s)),
               model_db := (model_db s)(''default'' := None),
               saved_db := (model_db s)(''default'' := None),
               backup_db := (model_db s)(''default'' := None),
               calls := calls s @ [Route_delete, Save_db, Backup_db]\<rparr>)"
proof -
  have "ip_route_delete P s =
      (None, s\<lparr>os := snd (route_delete P (os s)), calls := calls s @ [Route_delete]\<rparr>)"
    using assms ip_route_delete_frame [of P s] by (metis prod.collapse)
  then show ?thesis by (simp add: delete_default_def save_def)
qed

text \<open>A run of \<open>update_default\<close> that raises has written nothing to the configuration.\<close>

lemma change_default_Inl:
  assumes "fst (change_default P n d s) = Inl e"
  shows "model_db (snd (change_default P n d s)) = model_db s \<and>
         saved_db (snd (change_default P n d s)) = saved_db s \<and>
         backup_db (snd (change_default P n d s)) = backup_db s"
proof -
  obtain ifaces s1 where l: "list_interfaces P s = (ifaces, s1)"
    by (cases "list_interfaces P s")
  from list_interfaces_queries [of P s] l obtain qs where s1: "s1 = s\<lparr>calls := calls s @ qs\<rparr>"
    by auto
  obtain n' g' where r: "(case lookup n (interfaces s1) of
                    Some iface \<Rightarrow> (e_interface iface, e_gateway iface)
                  | None \<Rightarrow> (n, gateway d)) = (n', g')"
    by (cases "case lookup n (interfaces s1) of
                    Some iface \<Rightarrow> (e_interface iface, e_gateway iface)
                  | None \<Rightarrow> (n, gateway d)")
  obtain r2 s2 where d2: "ip_route_delete P s1 = (r2, s2)" by (cases "ip_route_delete P s1")
  obtain r3 s3 where d3: "ip_route_add P n' g' s2 = (r3, s3)" by (cases "ip_route_add P n' g' s2")
  have s2: "s2 = s1\<lparr>os := snd (route_delete P (os s1)), calls := calls s1 @ [Route_delete]\<rparr>"
    using d2 ip_route_delete_frame(1) [of P s1] by simp
  have s3: "s3 = s2\<lparr>os := snd (route_add P n' g' (os s2)), calls := calls s2 @ [Route_add n' g']\<rparr>"
    using d3 ip_route_add_frame(1) [of P n' g' s2] by simp
  have "snd (change_default P n d s) = s1 \<or> snd (change_default P n d s) = s2
        \<or> snd (change_default P n d s) = s3"
    using assms l r d2 d3 by (auto simp: change_default_def split: if_splits option.splits)
  then show ?thesis using s1 s2 s3 by auto
qed

lemma update_default_Inl:
  assumes "fst (update_default P d s) = Inl e"
  shows "model_db (snd (update_default P d s)) = model_db s \<and>
         saved_db (snd (update_default P d s)) = saved_db s \<and>
         backup_db (snd (update_default P d s)) = backup_db s"
proof (cases "truthy (interface d)")
  case True
  then obtain n where n: "interface d = Some n" "n \<noteq> []" by (cases "interface d") auto
  then have "update_default P d s = change_default P n d s" by (simp add: update_default_def)
  then show ?thesis using change_default_Inl [of P n d s e] assms by simp
next
  case False
  then have u: "update_default P d s = delete_default P s"
    by (cases "interface d") (auto simp: update_default_def)
  show ?thesis
  proof (cases "fst (route_delete P (os s))")
    case None
    then show ?thesis using u assms delete_default_succeeds [of P s] by simp
  next
    case (Some e')
    then show ?thesis using u delete_default_fails [of P s e'] by simp
  qed
qed

text \<open>\<open>update_default\<close> never touches the attributes of the object or the log.\<close>

lemma change_default_attrs:
  "cellular (snd (change_default P n d s)) = cellular s \<and>
   interfaces (snd (change_default P n d s)) = interfaces s \<and>
   logger (snd (change_default P n d s)) = logger s"
proof -
  obtain ifaces s1 where l: "list_interfaces P s = (ifaces, s1)"
    by (cases "list_interfaces P s")
  from list_interfaces_queries [of P s] l obtain qs where s1: "s1 = s\<lparr>calls := calls s @ qs\<rparr>"
    by auto
  obtain n' g' where r: "(case lookup n (interfaces s1) of
                    Some iface \<Rightarrow> (e_interface iface, e_gateway iface)
                  | None \<Rightarrow> (n, gateway d)) = (n', g')"
    by (cases "case lookup n (interfaces s1) of
                    Some iface \<Rightarrow> (e_interface iface, e_gateway iface)
                  | None \<Rightarrow> (n, gateway d)")
  obtain r2 s2 where d2: "ip_route_delete P s1 = (r2, s2)" by (cases "ip_route_delete P s1")
  obtain r3 s3 where d3: "ip_route_add P n' g' s2 = (r3, s3)" by (cases "ip_route_add P n' g' s2")
  have s2: "s2 = s1\<lparr>os := snd (route_delete P (os s1)), calls := calls s1 @ [Route_delete]\<rparr>"
    using d2 ip_route_delete_frame(1) [of P s1] by simp
  have s3: "s3 = s2\<lparr>os := snd (route_add P n' g' (os s2)), calls := calls s2 @ [Route_add n' g']\<rparr>"
    using d3 ip_route_add_frame(1) [of P n' g' s2] by simp
  have "snd (change_default P n d s) = s1 \<or> snd (change_default P n d s) = s2
        \<or> snd (change_default P n d s) = s3
        \<or> snd (change_default P n d s) = save (s3\<lparr>model_db := (model_db s3)(''default'' \<mapsto> n')\<rparr>)"
    using l r d2 d3 by (auto simp: change_default_def split: if_splits option.splits)
  then show ?thesis using s1 s2 s3 by (auto simp: save_def)
qed

lemma delete_default_attrs:
  "cellular (snd (delete_default P s)) = cellular s \<and>
   interfaces (snd (delete_default P s)) = interfaces s \<and>
   logger (snd (delete_default P s)) = logger s"
proof (cases "fst (route_delete P (os s))")
  case None
  then show ?thesis using delete_default_succeeds [of P s] by simp
next
  case (Some e')
  then show ?thesis using delete_default_fails [of P s e'] by simp
qed

lemma update_default_attrs:
  "cellular (snd (update_default P d s)) = cellular s \<and>
   interfaces (snd (update_default P d s)) = interfaces s \<and>
   logger (snd (update_default P d s)) = logger s"
  using change_default_attrs [of P _ d s] delete_default_attrs [of P s]
  by (simp add: update_default_def split: option.splits)

lemma list_default_frame:
  "snd (list_default P s) = s\<lparr>calls := calls s @ [Netifaces_gateways]\<rparr>"
  by (simp add: list_default_def Let_def split: option.splits)

subsection \<open>cellular_connected\<close>

text \<open>
  C2. \<open>cellular_connected(n, up=True)\<close> sets \<open>self.cellular\<close> to \<open>n\<close> and then calls
  \<open>update_default\<close>, whose guard \<open>elif self.cellular:\<close> is true by then. For every
  non-empty \<open>n\<close> the call raises a \<open>ValueError\<close> and leaves the state before with
  \<open>cellular\<close> set and query calls added: the route is never deleted or added and the
  persisted configuration is not written, against the docstring of the method ("the
  default gateway should be set to cellular interface").
\<close>

theorem cellular_connected_up_raises:
  assumes "n \<noteq> []"
  shows "\<exists>msg qs. list_all is_query qs \<and>
           cellular_connected P n True s =
             (Inl (ValueError msg), s\<lparr>cellular := Some n, calls := calls s @ qs\<rparr>)"
proof -
  let ?s = "s\<lparr>cellular := Some n\<rparr>"
  let ?d = "\<lparr>interface = Some n, gateway = None\<rparr>"
  have c: "cellular_connected P n True s = change_default P n ?d ?s"
    using assms by (simp add: cellular_connected_def update_default_def)
  from list_interfaces_queries [of P ?s] obtain qs where
    qs: "list_all is_query qs" "snd (list_interfaces P ?s) = ?s\<lparr>calls := calls ?s @ qs\<rparr>"
    by blast
  then have st: "snd (list_interfaces P ?s) = s\<lparr>cellular := Some n, calls := calls s @ qs\<rparr>"
    by simp
  show ?thesis
  proof (cases "n \<in> set (fst (list_interfaces P ?s))")
    case True
    moreover have "truthy (cellular ?s)" using assms by simp
    ultimately show ?thesis using change_default_locked [of n P ?s ?d] c st qs(1) by auto
  next
    case False
    then show ?thesis using change_default_down [of n P ?s ?d] c st qs(1) by auto
  qed
qed

text \<open>
  \<open>ppp0\<close> comes up on the host whose persisted default is \<open>eth0\<close>: the call raises, and
  the default route and the configuration still name \<open>eth0\<close>.
\<close>

theorem cellular_connected_up_raises_witness:
  "''ppp0'' \<noteq> [] \<and>
   (\<exists>msg qs. list_all is_query qs \<and>
      cellular_connected stub ''ppp0'' True wired =
        (Inl (ValueError msg), wired\<lparr>cellular := Some ''ppp0'', calls := calls wired @ qs\<rparr>)) \<and>
   ''ppp0'' \<in> set (fst (list_interfaces stub wired)) \<and>
   fst (cellular_connected stub ''ppp0'' True wired) =
     Inl (ValueError ''Cellular is connected, the default gatewaycannot be changed.'') \<and>
   model_db (snd (cellular_connected stub ''ppp0'' True wired)) ''default'' = Some ''eth0'' \<and>
   default_route (os (snd (cellular_connected stub ''ppp0'' True wired))) =
     Some (''10.0.0.1'', ''eth0'')"
proof -
  have h: "''ppp0'' \<noteq> []" by simp
  have u: "''ppp0'' \<in> set (fst (list_interfaces stub wired))"
    by (simp add: wired_def up_host)
  have r: "fst (cellular_connected stub ''ppp0'' True wired) =
     Inl (ValueError ''Cellular is connected, the default gatewaycannot be changed.'')"
    "model_db (snd (cellular_connected stub ''ppp0'' True wired)) ''default'' = Some ''eth0''"
    "default_route (os (snd (cellular_connected stub ''ppp0'' True wired))) =
     Some (''10.0.0.1'', ''eth0'')"
    by (simp_all add: cellular_connected_def update_default_def change_default_def
        list_interfaces_def stub_def stub_interfaces_def stub_ifaddresses_def host_def
        fresh_def wired_def)
  show ?thesis using cellular_connected_up_raises [OF h, of stub wired] h u r by blast
qed

text \<open>
  C7, as the code has it. With a persisted default \<open>d\<close>,
  \<open>cellular_connected(n, up=False)\<close> sets \<open>self.cellular\<close> to \<open>None\<close> whatever it was.
  When \<open>n\<close> differs from \<open>d\<close> nothing else changes. When \<open>n\<close> is \<open>d\<close> the default route
  is deleted and no route is added: if the delete succeeds, "default" is removed from
  the configuration, which is saved and backed up; if it raises, the exception leaves
  the method and the configuration is as it was.
\<close>

theorem cellular_disconnected:
  assumes "model_db s ''default'' = Some d"
  shows "cellular (snd (cellular_connected P n False s)) = None \<and>
         (n \<noteq> d \<longrightarrow> cellular_connected P n False s = (Inr (), s\<lparr>cellular := None\<rparr>)) \<and>
         (n = d \<longrightarrow>
            (case route_delete P (os s) of
               (None, w) \<Rightarrow>
                 cellular_connected P n False s =
                   (Inr (), s\<lparr>cellular := None, os := w,
                              model_db := (model_db s)(''default'' := None),
                              saved_db := (model_db s)(''default'' := None),
                              backup_db := (model_db s)(''default'' := None),
                              calls := calls s @ [Route_delete, Save_db, Backup_db]\<rparr>)
             | (Some e, w) \<Rightarrow>
                 cellular_connected P n False s =
                   (Inl e, s\<lparr>cellular := None, os := w,
                             calls := calls s @ [Route_delete]\<rparr>)))"
proof -
  let ?s = "s\<lparr>cellular := None\<rparr>"
  have c: "cellular_connected P n False s =
      (if n = d then delete_default P ?s else (Inr (), ?s))"
    using assms by (simp add: cellular_connected_def update_default_def)
  obtain r w where rd: "route_delete P (os s) = (r, w)" by (cases "route_delete P (os s)")
  have del: "delete_default P ?s =
      (case r of
         None \<Rightarrow> (Inr (), s\<lparr>cellular := None, os := w,
                              model_db := (model_db s)(''default'' := None),
                              saved_db := (model_db s)(''default'' := None),
                              backup_db := (model_db s)(''default'' := None),
                              calls := calls s @ [Route_delete, Save_db, Backup_db]\<rparr>)
       | Some e \<Rightarrow> (Inl e, s\<lparr>cellular := None, os := w, calls := calls s @ [Route_delete]\<rparr>))"
  proof (cases r)
    case None
    then show ?thesis using rd delete_default_succeeds [of P ?s] by simp
  next
    case (Some e)
    then show ?thesis using rd delete_default_fails [of P ?s e] by simp
  qed
  show ?thesis using c del rd by (cases r) auto
qed

text \<open>\<open>ppp0\<close>, the persisted default, goes down; and \<open>ppp1\<close>, which is not.\<close>

theorem cellular_disconnected_witness:
  "model_db dialled ''default'' = Some ''ppp0'' \<and>
   cellular (snd (cellular_connected stub ''ppp0'' False dialled)) = None \<and>
   fst (cellular_connected stub ''ppp0'' False dialled) = Inr () \<and>
   model_db (snd (cellular_connected stub ''ppp0'' False dialled)) ''default'' = None \<and>
   default_route (os (snd (cellular_connected stub ''ppp0'' False dialled))) = None \<and>
   calls (snd (cellular_connected stub ''ppp0'' False dialled)) =
     [Route_delete, Save_db, Backup_db] \<and>
   cellular_connected stub ''ppp1'' False dialled = (Inr (), dialled\<lparr>cellular := None\<rparr>)"
proof -
  have h: "model_db dialled ''default'' = Some ''ppp0''" by (simp add: dialled_def fresh_def)
  have rd: "route_delete stub (os dialled) = (None, (os dialled)\<lparr>default_route := None\<rparr>)"
    by (simp add: stub_def dialled_def fresh_def host_def)
  from cellular_disconnected [OF h, of stub "''ppp0''"] rd
  have a: "cellular_connected stub ''ppp0'' False dialled =
     (Inr (), dialled\<lparr>cellular := None, os := (os dialled)\<lparr>default_route := None\<rparr>,
                              model_db := (model_db dialled)(''default'' := None),
                              saved_db := (model_db dialled)(''default'' := None),
                              backup_db := (model_db dialled)(''default'' := None),
                              calls := calls dialled @ [Route_delete, Save_db, Backup_db]\<rparr>)"
    by simp
  have c: "calls dialled = []" by (simp add: dialled_def fresh_def)
  from cellular_disconnected [OF h, of stub "''ppp1''"]
  have b: "cellular_connected stub ''ppp1'' False dialled = (Inr (), dialled\<lparr>cellular := None\<rparr>)"
    by simp
  show ?thesis using h a b c by simp
qed

text \<open>
  The call does change the state when another interface or none is connected: with \<open>ppp0\<close> connected, the
  disconnection of \<open>ppp1\<close> clears \<open>self.cellular\<close>; with no cellular interface connected,
  the disconnection of the persisted default \<open>ppp0\<close> removes the route and the key.
\<close>

theorem signal_down_not_noop:
  "cellular locked = Some ''ppp0'' \<and>
   cellular (snd (cellular_connected stub ''ppp1'' False locked)) = None \<and>
   cellular dialled = None \<and>
   model_db dialled ''default'' = Some ''ppp0'' \<and>
   default_route (os dialled) = Some ([], ''ppp0'') \<and>
   model_db (snd (cellular_connected stub ''ppp0'' False dialled)) ''default'' = None \<and>
   default_route (os (snd (cellular_connected stub ''ppp0'' False dialled))) = None"
  by (simp add: cellular_connected_def update_default_def delete_default_def
      ip_route_delete_def save_def stub_def locked_def dialled_def fresh_def host_def)

subsection \<open>The re-apply of update_interface_router\<close>

lemma upsert_gateway:
  assumes "name a = Some n"
  shows "\<exists>iface es. upsert a s = (Inr iface, s\<lparr>interfaces := es\<rparr>) \<and>
           lookup n es = Some iface \<and>
           e_gateway iface =
             (case u_gateway a of
                Some v \<Rightarrow> Some v
              | None \<Rightarrow> (case lookup n (interfaces s) of
                           Some old \<Rightarrow> e_gateway old
                         | None \<Rightarrow> None))"
proof (cases "update_router (interfaces s) n (u_gateway a)")
  case None
  then have l: "lookup n (interfaces s) = None" by (simp add: update_router_None)
  let ?e = "\<lparr>e_interface = n, e_gateway = u_gateway a\<rparr>"
  have "upsert a s = (Inr ?e, s\<lparr>interfaces := interfaces s @ [?e]\<rparr>)"
    using assms None by (simp add: upsert_def Let_def)
  moreover have "lookup n (interfaces s @ [?e]) = Some ?e"
    using lookup_append_new [OF l, of n ?e] by simp
  moreover have "e_gateway ?e = (case u_gateway a of
                Some v \<Rightarrow> Some v
              | None \<Rightarrow> (case lookup n (interfaces s) of
                           Some old \<Rightarrow> e_gateway old
                         | None \<Rightarrow> None))"
    using l by (simp split: option.splits)
  ultimately show ?thesis by blast
next
  case (Some r)
  obtain es' e' where "r = (es', e')" by (cases r)
  with Some have us: "update_router (interfaces s) n (u_gateway a) = Some (es', e')" by simp
  have "upsert a s = (Inr e', s\<lparr>interfaces := es'\<rparr>)"
    using assms us by (simp add: upsert_def)
  moreover from update_router_Some [OF us] obtain old where
    "lookup n (interfaces s) = Some old"
    "e' = (case u_gateway a of Some v \<Rightarrow> old\<lparr>e_gateway := Some v\<rparr> | None \<Rightarrow> old)"
    "lookup n es' = Some e'"
    by blast
  moreover from this have "e_gateway e' = (case u_gateway a of
                Some v \<Rightarrow> Some v
              | None \<Rightarrow> (case lookup n (interfaces s) of
                           Some old \<Rightarrow> e_gateway old
                         | None \<Rightarrow> None))"
    by (simp split: option.splits)
  ultimately show ?thesis by blast
qed

text \<open>
  C8, as the code has it. For an update of the name \<open>n\<close> when the configuration has a
  persisted default \<open>d\<close>: the registry is updated first (\<open>iface\<close> is the entry of \<open>n\<close>,
  with the gateway of the update, or the one it had when the update carries none);
  the method returns normally and writes nothing to the log. When \<open>n\<close> differs from
  \<open>d\<close> nothing but the registry changes. When \<open>n\<close> is \<open>d\<close> the state is the one
  \<open>update_default\<close> leaves for \<open>{interface: n}\<close> with the registered gateway, whether it
  raised or not; when it succeeded for a non-empty \<open>n\<close>, its calls were the up-check,
  the delete, the add of \<open>n\<close> with the registered gateway, and the save.
\<close>

theorem update_interface_router_reapply:
  assumes "name a = Some n" and "model_db s ''default'' = Some d"
  shows "\<exists>iface es.
           upsert a s = (Inr iface, s\<lparr>interfaces := es\<rparr>) \<and>
           lookup n es = Some iface \<and>
           e_gateway iface =
             (case u_gateway a of
                Some v \<Rightarrow> Some v
              | None \<Rightarrow> (case lookup n (interfaces s) of
                           Some old \<Rightarrow> e_gateway old
                         | None \<Rightarrow> None)) \<and>
           fst (update_interface_router P a s) = Inr () \<and>
           logger (snd (update_interface_router P a s)) = logger s \<and>
           (n \<noteq> d \<longrightarrow> snd (update_interface_router P a s) = s\<lparr>interfaces := es\<rparr>) \<and>
           (n = d \<longrightarrow>
              snd (update_interface_router P a s) =
                snd (update_default P \<lparr>interface = Some n, gateway = e_gateway iface\<rparr>
                       (s\<lparr>interfaces := es\<rparr>)) \<and>
              (n \<noteq> [] \<and>
               fst (update_default P \<lparr>interface = Some n, gateway = e_gateway iface\<rparr>
                       (s\<lparr>interfaces := es\<rparr>)) = Inr () \<longrightarrow>
               calls (snd (update_interface_router P a s)) =
                 calls (snd (list_interfaces P (s\<lparr>interfaces := es\<rparr>)))
                   @ [Route_delete, Route_add n (e_gateway iface), Save_db, Backup_db]))"
proof -
  from upsert_gateway [OF assms(1), of s] obtain iface es where
    u: "upsert a s = (Inr iface, s\<lparr>interfaces := es\<rparr>)"
    and l: "lookup n es = Some iface"
    and g: "e_gateway iface =
             (case u_gateway a of
                Some v \<Rightarrow> Some v
              | None \<Rightarrow> (case lookup n (interfaces s) of
                           Some old \<Rightarrow> e_gateway old
                         | None \<Rightarrow> None))"
    by blast
  let ?s = "s\<lparr>interfaces := es\<rparr>"
  let ?d = "\<lparr>interface = Some n, gateway = e_gateway iface\<rparr>"
  have nm: "e_interface iface = n" using lookup_name [OF l] .
  then have ed: "entry_dict iface = ?d" by (simp add: entry_dict_def)
  have r: "update_interface_router P a s =
      (if n = d then (Inr (), snd (update_default P ?d ?s)) else (Inr (), ?s))"
    using u assms(2) nm ed by (simp add: update_interface_router_def split: prod.splits)
  have lg: "logger (snd (update_default P ?d ?s)) = logger s"
    using update_default_attrs [of P ?d ?s] by simp
  have ap: "calls (snd (update_default P ?d ?s)) =
      calls (snd (list_interfaces P ?s))
        @ [Route_delete, Route_add n (e_gateway iface), Save_db, Backup_db]"
    if ne: "n \<noteq> []" and ok: "fst (update_default P ?d ?s) = Inr ()"
  proof -
    have "update_default P ?d ?s = change_default P n ?d ?s"
      using ne by (simp add: update_default_def)
    with ok have "change_default P n ?d ?s = (Inr (), snd (update_default P ?d ?s))"
      by (metis prod.collapse)
    from change_default_Inr [OF this] l nm show ?thesis by auto
  qed
  show ?thesis
  proof (intro exI [of _ iface] exI [of _ es] conjI impI)
    show "upsert a s = (Inr iface, ?s)" by (rule u)
    show "lookup n es = Some iface" by (rule l)
    show "e_gateway iface =
             (case u_gateway a of
                Some v \<Rightarrow> Some v
              | None \<Rightarrow> (case lookup n (interfaces s) of
                           Some old \<Rightarrow> e_gateway old
                         | None \<Rightarrow> None))" by (rule g)
    show "fst (update_interface_router P a s) = Inr ()" using r by simp
    show "logger (snd (update_interface_router P a s)) = logger s" using r lg by auto
    show "snd (update_interface_router P a s) = ?s" if "n \<noteq> d" using r that by simp
    show "snd (update_interface_router P a s) = snd (update_default P ?d ?s)" if "n = d"
      using r that by simp
    show "calls (snd (update_interface_router P a s)) =
        calls (snd (list_interfaces P ?s))
          @ [Route_delete, Route_add n (e_gateway iface), Save_db, Backup_db]"
      if "n = d" and "n \<noteq> [] \<and> fst (update_default P ?d ?s) = Inr ()"
      using r that ap by simp
  qed
qed

text \<open>\<open>eth0\<close> is the persisted default and gets the gateway 10.0.0.2.\<close>

lemma reapplied_run:
  "fst (update_interface_router stub \<lparr>name = Some ''eth0'', u_gateway = Some ''10.0.0.2''\<rparr>
     reapplied) = Inr ()"
  "calls (snd (update_interface_router stub \<lparr>name = Some ''eth0'', u_gateway = Some ''10.0.0.2''\<rparr>
     reapplied)) =
     [Addr_interfaces, Addr_ifaddresses ''eth0'', Addr_ifaddresses ''eth1'',
      Addr_ifaddresses ''ppp0'', Route_delete, Route_add ''eth0'' (Some ''10.0.0.2''),
      Save_db, Backup_db]"
  "default_route (os (snd (update_interface_router stub
     \<lparr>name = Some ''eth0'', u_gateway = Some ''10.0.0.2''\<rparr> reapplied))) =
     Some (''10.0.0.2'', ''eth0'')"
  by (simp_all add: update_interface_router_def upsert_def entry_dict_def
      update_default_def change_default_def list_interfaces_def stub_def
      stub_interfaces_def stub_ifaddresses_def host_def fresh_def registered_def reapplied_def
      lookup_def ip_route_delete_def ip_route_add_def save_def Let_def)

theorem update_interface_router_reapply_witness:
  "name \<lparr>name = Some ''eth0'', u_gateway = Some ''10.0.0.2''\<rparr> = Some ''eth0'' \<and>
   model_db reapplied ''default'' = Some ''eth0'' \<and>
   (\<exists>iface es.
      upsert \<lparr>name = Some ''eth0'', u_gateway = Some ''10.0.0.2''\<rparr> reapplied =
        (Inr iface, reapplied\<lparr>interfaces := es\<rparr>) \<and>
      lookup ''eth0'' es = Some iface \<and> e_gateway iface = Some ''10.0.0.2'') \<and>
   fst (update_interface_router stub \<lparr>name = Some ''eth0'', u_gateway = Some ''10.0.0.2''\<rparr>
     reapplied) = Inr () \<and>
   calls (snd (update_interface_router stub \<lparr>name = Some ''eth0'', u_gateway = Some ''10.0.0.2''\<rparr>
     reapplied)) =
     [Addr_interfaces, Addr_ifaddresses ''eth0'', Addr_ifaddresses ''eth1'',
      Addr_ifaddresses ''ppp0'', Route_delete, Route_add ''eth0'' (Some ''10.0.0.2''),
      Save_db, Backup_db] \<and>
   default_route (os (snd (update_interface_router stub
     \<lparr>name = Some ''eth0'', u_gateway = Some ''10.0.0.2''\<rparr> reapplied))) =
     Some (''10.0.0.2'', ''eth0'')"
proof -
  have h1: "name \<lparr>name = Some ''eth0'', u_gateway = Some ''10.0.0.2''\<rparr> = Some ''eth0''" by simp
  have h2: "model_db reapplied ''default'' = Some ''eth0''" by (simp add: reapplied_def)
  from update_interface_router_reapply [OF h1 h2, of stub]
  have "\<exists>iface es.
      upsert \<lparr>name = Some ''eth0'', u_gateway = Some ''10.0.0.2''\<rparr> reapplied =
        (Inr iface, reapplied\<lparr>interfaces := es\<rparr>) \<and>
      lookup ''eth0'' es = Some iface \<and> e_gateway iface = Some ''10.0.0.2''"
    by auto
  then show ?thesis using h1 h2 reapplied_run by blast
qed

text \<open>
  The persisted default \<open>eth1\<close> is down: the re-apply raises, the method returns
  normally, and the log is as empty as before.
\<close>

theorem reapply_failure_not_logged:
  "model_db stale ''default'' = Some ''eth1'' \<and>
   fst (update_default stub \<lparr>interface = Some ''eth1'', gateway = Some ''10.0.1.1''\<rparr>
     (stale\<lparr>interfaces := [\<lparr>e_interface = ''eth1'', e_gateway = Some ''10.0.1.1''\<rparr>]\<rparr>)) =
     Inl (ValueError ''Interface should be UP.'') \<and>
   interfaces (snd (update_interface_router stub
     \<lparr>name = Some ''eth1'', u_gateway = Some ''10.0.1.1''\<rparr> stale)) =
     [\<lparr>e_interface = ''eth1'', e_gateway = Some ''10.0.1.1''\<rparr>] \<and>
   fst (update_interface_router stub \<lparr>name = Some ''eth1'', u_gateway = Some ''10.0.1.1''\<rparr> stale) =
     Inr () \<and>
   logger stale = [] \<and>
   logger (snd (update_interface_router stub
     \<lparr>name = Some ''eth1'', u_gateway = Some ''10.0.1.1''\<rparr> stale)) = []"
  by (simp add: update_interface_router_def upsert_def entry_dict_def
      update_default_def change_default_def list_interfaces_def stub_def
      stub_interfaces_def stub_ifaddresses_def host_def fresh_def stale_def
      lookup_def ip_route_delete_def ip_route_add_def save_def Let_def)

subsection \<open>The handler _put_default\<close>

lemma list_default_shape:
  assumes "fst (list_default P s) = Inr obs"
  shows "\<not> nonempty_dict obs \<or> (\<exists>i g. obs = \<lparr>interface = Some i, gateway = Some g\<rparr>)"
  using assms
  by (auto simp: list_default_def Let_def nonempty_dict_def split: if_splits option.splits)

lemma update_default_Inr_db:
  assumes "fst (update_default P d s) = Inr ()" and "interface d = Some i"
  shows "model_db (snd (update_default P d s)) =
           (if i \<noteq> [] then (model_db s)(''default'' \<mapsto> i) else (model_db s)(''default'' := None))"
proof (cases "i \<noteq> []")
  case True
  let ?s' = "snd (update_default P d s)"
  have "update_default P d s = change_default P i d s"
    using True assms(2) by (simp add: update_default_def)
  with assms(1) have "change_default P i d s = (Inr (), ?s')" by (metis prod.collapse)
  from change_default_Inr [OF this] obtain n' g' where
    r: "(case lookup i (interfaces s) of
           Some iface \<Rightarrow> (e_interface iface, e_gateway iface)
         | None \<Rightarrow> (i, gateway d)) = (n', g')"
    and m: "model_db ?s' = (model_db s)(''default'' \<mapsto> n')"
    by blast
  have "n' = i" using r lookup_name [of i "interfaces s"] by (auto split: option.splits)
  with m True show ?thesis by simp
next
  case False
  then have u: "update_default P d s = delete_default P s"
    using assms(2) by (simp add: update_default_def)
  show ?thesis
  proof (cases "fst (route_delete P (os s))")
    case None
    then show ?thesis using u False delete_default_succeeds [of P s] by simp
  next
    case (Some e')
    then show ?thesis using u assms(1) delete_default_fails [of P s e'] by simp
  qed
qed

text \<open>Every run of \<open>update_default\<close> makes a call.\<close>

lemma list_interfaces_calls:
  "\<exists>cs. calls (snd (list_interfaces P s)) = calls s @ Addr_interfaces # cs"
  by (auto simp: list_interfaces_def split: sum.splits)

lemma change_default_calls:
  "\<exists>c cs. calls (snd (change_default P n d s)) = calls s @ c # cs"
proof -
  obtain ifaces s1 where l: "list_interfaces P s = (ifaces, s1)"
    by (cases "list_interfaces P s")
  from list_interfaces_calls [of P s] l obtain qs where
    s1: "calls s1 = calls s @ Addr_interfaces # qs" by auto
  obtain n' g' where r: "(case lookup n (interfaces s1) of
                    Some iface \<Rightarrow> (e_interface iface, e_gateway iface)
                  | None \<Rightarrow> (n, gateway d)) = (n', g')"
    by (cases "case lookup n (interfaces s1) of
                    Some iface \<Rightarrow> (e_interface iface, e_gateway iface)
                  | None \<Rightarrow> (n, gateway d)")
  obtain r2 s2 where d2: "ip_route_delete P s1 = (r2, s2)" by (cases "ip_route_delete P s1")
  obtain r3 s3 where d3: "ip_route_add P n' g' s2 = (r3, s3)" by (cases "ip_route_add P n' g' s2")
  have s2: "calls s2 = calls s1 @ [Route_delete]"
    using d2 ip_route_delete_frame(1) [of P s1] by simp
  have s3: "calls s3 = calls s2 @ [Route_add n' g']"
    using d3 ip_route_add_frame(1) [of P n' g' s2] by simp
  have "snd (change_default P n d s) = s1 \<or> snd (change_default P n d s) = s2
        \<or> snd (change_default P n d s) = s3
        \<or> snd (change_default P n d s) = save (s3\<lparr>model_db := (model_db s3)(''default'' \<mapsto> n')\<rparr>)"
    using l r d2 d3 by (auto simp: change_default_def split: if_splits option.splits)
  then show ?thesis using s1 s2 s3 by (auto simp: save_def)
qed

lemma delete_default_calls:
  "\<exists>cs. calls (snd (delete_default P s)) = calls s @ Route_delete # cs"
proof (cases "fst (route_delete P (os s))")
  case None
  then show ?thesis using delete_default_succeeds [of P s] by simp
next
  case (Some e')
  then show ?thesis using delete_default_fails [of P s e'] by simp
qed

lemma update_default_calls:
  "\<exists>c cs. calls (snd (update_default P d s)) = calls s @ c # cs"
  using change_default_calls [of P _ d s] delete_default_calls [of P s]
  by (fastforce simp: update_default_def split: option.splits)

lemma recover_calls:
  assumes "nonempty_dict obs"
  shows "\<exists>c cs. calls (recover P obs s) = calls s @ c # cs"
proof -
  obtain r s1 where u: "update_default P obs s = (r, s1)" by (cases "update_default P obs s")
  from update_default_calls [of P obs s] u obtain c cs where "calls s1 = calls s @ c # cs"
    by auto
  then show ?thesis using assms u by (cases r) (auto simp: recover_def)
qed

text \<open>The handler when \<open>update_default\<close> raises.\<close>

lemma put_default_failed:
  assumes "fst (list_default P s) = Inr obs"
    and "fst (update_default P d (snd (list_default P s))) = Inl e"
  shows "put_default P (Data d) s =
     (Inr \<lparr>resp_code = 404,
           resp_data = Message (''Update default gateway failed: '' @ str_exn e)\<rparr>,
      (recover P obs (snd (update_default P d (snd (list_default P s)))))
        \<lparr>logger := logger (recover P obs (snd (update_default P d (snd (list_default P s))))) @
                    [''Update default gateway failed: '' @ str_exn e]\<rparr>)"
proof -
  obtain s0 where l: "list_default P s = (Inr obs, s0)"
    using assms(1) by (cases "list_default P s") auto
  obtain s1 where u: "update_default P d s0 = (Inl e, s1)"
    using assms(2) l by (cases "update_default P d s0") auto
  show ?thesis using l u by (simp add: put_default_def Let_def)
qed

lemma put_default_ok:
  assumes "fst (list_default P s) = Inr obs"
    and "fst (update_default P d (snd (list_default P s))) = Inr ()"
  shows "put_default P (Data d) s =
     (Inr \<lparr>resp_code = 200,
           resp_data = Db (model_db (snd (update_default P d (snd (list_default P s)))))\<rparr>,
      snd (update_default P d (snd (list_default P s))))"
proof -
  obtain s0 where l: "list_default P s = (Inr obs, s0)"
    using assms(1) by (cases "list_default P s") auto
  obtain s1 where u: "update_default P d s0 = (Inr (), s1)"
    using assms(2) l by (cases "update_default P d s0") auto
  show ?thesis using l u by (simp add: put_default_def Let_def)
qed

lemma update_default_Inr_saved:
  assumes "fst (update_default P d s) = Inr ()"
  shows "saved_db (snd (update_default P d s)) = model_db (snd (update_default P d s)) \<and>
         backup_db (snd (update_default P d s)) = model_db (snd (update_default P d s))"
proof (cases "truthy (interface d)")
  case True
  then obtain n where n: "interface d = Some n" "n \<noteq> []" by (cases "interface d") auto
  then have "update_default P d s = change_default P n d s" by (simp add: update_default_def)
  with assms have "change_default P n d s = (Inr (), snd (update_default P d s))"
    by (metis prod.collapse)
  from change_default_Inr [OF this] show ?thesis by blast
next
  case False
  then have u: "update_default P d s = delete_default P s"
    by (cases "interface d") (auto simp: update_default_def)
  show ?thesis
  proof (cases "fst (route_delete P (os s))")
    case None
    then show ?thesis using u delete_default_succeeds [of P s] by simp
  next
    case (Some e')
    then show ?thesis using u assms delete_default_fails [of P s e'] by simp
  qed
qed

text \<open>
  C6, as the code has it. A request without a truthy "interface" (the empty request)
  reaches the handler, whose read of the default route of the operating system has
  returned \<open>obs\<close>. The default route is deleted. If the delete succeeds, "default" is
  removed from the configuration, which is saved and backed up, and the answer is 200
  with the new configuration. If the delete raises \<open>e\<close>, the answer is 404 with the
  message of \<open>e\<close>, which is logged last, and the delete branch itself has written
  nothing. The handler then runs its recovery from the state \<open>s1\<close> the failed delete
  left. When no default route was observed, nothing more happens. When one was
  observed, \<open>update_default\<close> is called for it on \<open>s1\<close>, and the state after the request
  is the one that call leaves, with the log lines added: if it succeeds, the
  configuration is the one before the request with "default" set to the interface of
  \<open>obs\<close> (or removed, were that interface the empty string), saved and backed up; if
  it raises, "Failed to recover the default gateway." is logged as well and the
  configuration is as before the request.
\<close>

theorem put_default_clear:
  assumes "\<not> truthy (interface d)" and "fst (list_default P s) = Inr obs"
  shows "(case route_delete P (os s) of
            (None, w) \<Rightarrow>
              put_default P (Data d) s =
                (Inr \<lparr>resp_code = 200, resp_data = Db ((model_db s)(''default'' := None))\<rparr>,
                 s\<lparr>os := w,
                   model_db := (model_db s)(''default'' := None),
                   saved_db := (model_db s)(''default'' := None),
                   backup_db := (model_db s)(''default'' := None),
                   calls := calls s @ [Netifaces_gateways, Route_delete, Save_db, Backup_db]\<rparr>)
          | (Some e, w) \<Rightarrow>
              (let s1 = s\<lparr>os := w, calls := calls s @ [Netifaces_gateways, Route_delete]\<rparr>;
                   m = ''Update default gateway failed: '' @ str_exn e
               in fst (put_default P (Data d) s) =
                    Inr \<lparr>resp_code = 404, resp_data = Message m\<rparr> \<and>
                  update_default P d (snd (list_default P s)) = (Inl e, s1) \<and>
                  (\<not> nonempty_dict obs \<longrightarrow>
                     snd (put_default P (Data d) s) = s1\<lparr>logger := logger s @ [m]\<rparr>) \<and>
                  (nonempty_dict obs \<longrightarrow>
                     (case update_default P obs s1 of
                        (Inr u, s2) \<Rightarrow>
                          snd (put_default P (Data d) s) = s2\<lparr>logger := logger s @ [m]\<rparr> \<and>
                          (\<exists>i. interface obs = Some i \<and>
                             model_db s2 =
                               (if i \<noteq> [] then (model_db s)(''default'' \<mapsto> i)
                                else (model_db s)(''default'' := None))) \<and>
                          saved_db s2 = model_db s2 \<and> backup_db s2 = model_db s2
                      | (Inl e', s2) \<Rightarrow>
                          snd (put_default P (Data d) s) =
                            s2\<lparr>logger := logger s @
                                 [''Failed to recover the default gateway.'', m]\<rparr> \<and>
                          model_db s2 = model_db s \<and> saved_db s2 = saved_db s \<and>
                          backup_db s2 = backup_db s) \<and>
                     (\<exists>c cs. calls (snd (put_default P (Data d) s)) =
                                calls s @ [Netifaces_gateways, Route_delete] @ c # cs))))"
proof -
  let ?s0 = "s\<lparr>calls := calls s @ [Netifaces_gateways]\<rparr>"
  have s0: "snd (list_default P s) = ?s0" by (rule list_default_frame)
  have u: "update_default P d ?s0 = delete_default P ?s0"
    using assms(1) by (cases "interface d") (auto simp: update_default_def)
  obtain r w where rd: "route_delete P (os s) = (r, w)" by (cases "route_delete P (os s)")
  show ?thesis
  proof (cases r)
    case None
    then have "delete_default P ?s0 =
        (Inr (), s\<lparr>os := w,
                   model_db := (model_db s)(''default'' := None),
                   saved_db := (model_db s)(''default'' := None),
                   backup_db := (model_db s)(''default'' := None),
                   calls := calls s @ [Netifaces_gateways, Route_delete, Save_db, Backup_db]\<rparr>)"
      using rd delete_default_succeeds [of P ?s0] by simp
    with u s0 have "put_default P (Data d) s =
                (Inr \<lparr>resp_code = 200, resp_data = Db ((model_db s)(''default'' := None))\<rparr>,
                 s\<lparr>os := w,
                   model_db := (model_db s)(''default'' := None),
                   saved_db := (model_db s)(''default'' := None),
                   backup_db := (model_db s)(''default'' := None),
                   calls := calls s @ [Netifaces_gateways, Route_delete, Save_db, Backup_db]\<rparr>)"
      using put_default_ok [OF assms(2), of d] by simp
    then show ?thesis using rd None by simp
  next
    case (Some e)
    let ?s1 = "s\<lparr>os := w, calls := calls s @ [Netifaces_gateways, Route_delete]\<rparr>"
    let ?m = "''Update default gateway failed: '' @ str_exn e"
    have dd: "delete_default P ?s0 = (Inl e, ?s1)"
      using rd Some delete_default_fails [of P ?s0 e] by simp
    with u s0 have ud: "update_default P d (snd (list_default P s)) = (Inl e, ?s1)"
      by simp
    then have f: "fst (update_default P d (snd (list_default P s))) = Inl e"
      and s1: "snd (update_default P d (snd (list_default P s))) = ?s1"
      by simp_all
    from put_default_failed [OF assms(2) f] s1
    have p: "put_default P (Data d) s =
        (Inr \<lparr>resp_code = 404, resp_data = Message ?m\<rparr>,
         (recover P obs ?s1)\<lparr>logger := logger (recover P obs ?s1) @ [?m]\<rparr>)"
      by simp
    have a: "snd (put_default P (Data d) s) = ?s1\<lparr>logger := logger s @ [?m]\<rparr>"
      if "\<not> nonempty_dict obs"
      using p that by (simp add: recover_def)
    have b: "(case update_default P obs ?s1 of
                (Inr u, s2) \<Rightarrow>
                  snd (put_default P (Data d) s) = s2\<lparr>logger := logger s @ [?m]\<rparr> \<and>
                  (\<exists>i. interface obs = Some i \<and>
                     model_db s2 =
                       (if i \<noteq> [] then (model_db s)(''default'' \<mapsto> i)
                        else (model_db s)(''default'' := None))) \<and>
                  saved_db s2 = model_db s2 \<and> backup_db s2 = model_db s2
              | (Inl e', s2) \<Rightarrow>
                  snd (put_default P (Data d) s) =
                    s2\<lparr>logger := logger s @
                         [''Failed to recover the default gateway.'', ?m]\<rparr> \<and>
                  model_db s2 = model_db s \<and> saved_db s2 = saved_db s \<and>
                  backup_db s2 = backup_db s)"
      if ne: "nonempty_dict obs"
    proof -
      from list_default_shape [OF assms(2)] ne obtain i g where
        obs: "obs = \<lparr>interface = Some i, gateway = Some g\<rparr>" by blast
      obtain r2 s2 where u2: "update_default P obs ?s1 = (r2, s2)"
        by (cases "update_default P obs ?s1")
      have lg: "logger s2 = logger s"
        using update_default_attrs [of P obs ?s1] u2 by simp
      show ?thesis
      proof (cases r2)
        case (Inl e')
        with u2 have "fst (update_default P obs ?s1) = Inl e'" by simp
        from update_default_Inl [OF this] u2
        have "model_db s2 = model_db s" "saved_db s2 = saved_db s" "backup_db s2 = backup_db s"
          by simp_all
        then show ?thesis using u2 Inl ne p lg by (simp add: recover_def)
      next
        case (Inr v)
        with u2 have ok: "fst (update_default P obs ?s1) = Inr ()" by simp
        from update_default_Inr_db [OF ok, of i] obs u2
        have "model_db s2 =
            (if i \<noteq> [] then (model_db s)(''default'' \<mapsto> i)
             else (model_db s)(''default'' := None))"
          by simp
        moreover from update_default_Inr_saved [OF ok] u2
        have "saved_db s2 = model_db s2" "backup_db s2 = model_db s2" by simp_all
        ultimately show ?thesis using u2 Inr ne obs p lg by (simp add: recover_def)
      qed
    qed
    have c: "\<exists>c cs. calls (snd (put_default P (Data d) s)) =
                            calls s @ [Netifaces_gateways, Route_delete] @ c # cs"
      if "nonempty_dict obs"
      using recover_calls [OF that, of P ?s1] p by auto
    show ?thesis unfolding Let_def using rd Some p ud a b c by simp
  qed
qed

text \<open>The definitions a run on the test double unfolds.\<close>

lemmas stub_run =
  put_default_def recover_def list_default_def update_default_def change_default_def
  delete_default_def list_interfaces_def lookup_def ip_route_delete_def ip_route_add_def
  save_def nonempty_dict_def Let_def stub_def stub_interfaces_def stub_ifaddresses_def
  stub_gateways_def host_def fresh_def

text \<open>
  The empty request on the host whose default route goes through \<open>eth0\<close>; on the host
  without a default route, where the delete raises; and on the host where the delete
  raises while the route through \<open>eth0\<close> is observed, so that the recovery runs and
  persists \<open>eth0\<close>.
\<close>

lemma busy_run:
  "fst (list_default stub busy) = Inr \<lparr>interface = Some ''eth0'', gateway = Some ''10.0.0.1''\<rparr>"
  "route_delete stub (os busy) = (Some (Exception ''busy''), (os busy)\<lparr>delete_results := []\<rparr>)"
  "fst (update_default stub \<lparr>interface = Some ''eth0'', gateway = Some ''10.0.0.1''\<rparr>
     (busy\<lparr>os := (os busy)\<lparr>delete_results := []\<rparr>,
            calls := calls busy @ [Netifaces_gateways, Route_delete]\<rparr>)) = Inr ()"
  by (simp_all add: stub_run busy_def)

theorem put_default_clear_witness:
  "\<not> truthy (interface \<lparr>interface = None, gateway = None\<rparr>) \<and>
   fst (list_default stub wired) = Inr \<lparr>interface = Some ''eth0'', gateway = Some ''10.0.0.1''\<rparr> \<and>
   put_default stub (Data \<lparr>interface = None, gateway = None\<rparr>) wired =
     (Inr \<lparr>resp_code = 200, resp_data = Db ((model_db wired)(''default'' := None))\<rparr>,
      wired\<lparr>os := (os wired)\<lparr>default_route := None\<rparr>,
            model_db := (model_db wired)(''default'' := None),
            saved_db := (model_db wired)(''default'' := None),
            backup_db := (model_db wired)(''default'' := None),
            calls := calls wired @ [Netifaces_gateways, Route_delete, Save_db, Backup_db]\<rparr>) \<and>
   fst (list_default stub routeless) = Inr \<lparr>interface = None, gateway = None\<rparr> \<and>
   \<not> nonempty_dict \<lparr>interface = None, gateway = None\<rparr> \<and>
   fst (put_default stub (Data \<lparr>interface = None, gateway = None\<rparr>) routeless) =
     Inr \<lparr>resp_code = 404,
          resp_data = Message ''Update default gateway failed: RTNETLINK answers: No such process''\<rparr> \<and>
   snd (put_default stub (Data \<lparr>interface = None, gateway = None\<rparr>) routeless) =
     routeless\<lparr>os := (os routeless)\<lparr>delete_results := []\<rparr>,
               calls := calls routeless @ [Netifaces_gateways, Route_delete],
               logger := logger routeless @
                 [''Update default gateway failed: RTNETLINK answers: No such process'']\<rparr> \<and>
   fst (list_default stub busy) = Inr \<lparr>interface = Some ''eth0'', gateway = Some ''10.0.0.1''\<rparr> \<and>
   nonempty_dict \<lparr>interface = Some ''eth0'', gateway = Some ''10.0.0.1''\<rparr> \<and>
   fst (put_default stub (Data \<lparr>interface = None, gateway = None\<rparr>) busy) =
     Inr \<lparr>resp_code = 404, resp_data = Message ''Update default gateway failed: busy''\<rparr> \<and>
   snd (put_default stub (Data \<lparr>interface = None, gateway = None\<rparr>) busy) =
     (snd (update_default stub \<lparr>interface = Some ''eth0'', gateway = Some ''10.0.0.1''\<rparr>
        (busy\<lparr>os := (os busy)\<lparr>delete_results := []\<rparr>,
               calls := calls busy @ [Netifaces_gateways, Route_delete]\<rparr>)))
     \<lparr>logger := logger busy @ [''Update default gateway failed: busy'']\<rparr> \<and>
   model_db (snd (put_default stub (Data \<lparr>interface = None, gateway = None\<rparr>) busy)) =
     (model_db busy)(''default'' \<mapsto> ''eth0'') \<and>
   saved_db (snd (put_default stub (Data \<lparr>interface = None, gateway = None\<rparr>) busy)) =
     (model_db busy)(''default'' \<mapsto> ''eth0'')"
proof -
  let ?d = "\<lparr>interface = None, gateway = None\<rparr>"
  let ?obs = "\<lparr>interface = Some ''eth0'', gateway = Some ''10.0.0.1''\<rparr>"
  let ?s1 = "busy\<lparr>os := (os busy)\<lparr>delete_results := []\<rparr>,
                  calls := calls busy @ [Netifaces_gateways, Route_delete]\<rparr>"
  have h1: "\<not> truthy (interface ?d)" by simp
  have h2: "fst (list_default stub wired) = Inr ?obs"
    by (simp add: stub_run wired_def)
  have h3: "fst (list_default stub routeless) = Inr ?d"
    by (simp add: stub_run routeless_def)
  have h4: "\<not> nonempty_dict ?d" by (simp add: nonempty_dict_def)
  have h5: "nonempty_dict ?obs" by (simp add: nonempty_dict_def)
  have r1: "route_delete stub (os wired) = (None, (os wired)\<lparr>default_route := None\<rparr>)"
    by (simp add: stub_def wired_def fresh_def host_def)
  have r2: "route_delete stub (os routeless) =
      (Some (Exception ''RTNETLINK answers: No such process''),
       (os routeless)\<lparr>delete_results := []\<rparr>)"
    by (simp add: stub_def routeless_def fresh_def host_def)
  from put_default_clear [OF h1 h2] r1
  have a: "put_default stub (Data ?d) wired =
     (Inr \<lparr>resp_code = 200, resp_data = Db ((model_db wired)(''default'' := None))\<rparr>,
      wired\<lparr>os := (os wired)\<lparr>default_route := None\<rparr>,
            model_db := (model_db wired)(''default'' := None),
            saved_db := (model_db wired)(''default'' := None),
            backup_db := (model_db wired)(''default'' := None),
            calls := calls wired @ [Netifaces_gateways, Route_delete, Save_db, Backup_db]\<rparr>)"
    by simp
  from put_default_clear [OF h1 h3] r2 h4
  have b: "fst (put_default stub (Data ?d) routeless) =
     Inr \<lparr>resp_code = 404,
          resp_data = Message ''Update default gateway failed: RTNETLINK answers: No such process''\<rparr>"
    "snd (put_default stub (Data ?d) routeless) =
     routeless\<lparr>os := (os routeless)\<lparr>delete_results := []\<rparr>,
               calls := calls routeless @ [Netifaces_gateways, Route_delete],
               logger := logger routeless @
                 [''Update default gateway failed: RTNETLINK answers: No such process'']\<rparr>"
    by (simp_all add: Let_def)
  obtain s2 where u2: "update_default stub ?obs ?s1 = (Inr (), s2)"
    using busy_run(3) by (cases "update_default stub ?obs ?s1") auto
  from put_default_clear [OF h1 busy_run(1)] busy_run(2) h5 u2
  have c: "fst (put_default stub (Data ?d) busy) =
       Inr \<lparr>resp_code = 404, resp_data = Message ''Update default gateway failed: busy''\<rparr>"
    "snd (put_default stub (Data ?d) busy) =
       s2\<lparr>logger := logger busy @ [''Update default gateway failed: busy'']\<rparr>"
    "model_db s2 = (model_db busy)(''default'' \<mapsto> ''eth0'')"
    "saved_db s2 = model_db s2"
    by (simp_all add: Let_def)
  from c u2 have c': "snd (put_default stub (Data ?d) busy) =
       (snd (update_default stub ?obs ?s1))
         \<lparr>logger := logger busy @ [''Update default gateway failed: busy'']\<rparr>"
    "model_db (snd (put_default stub (Data ?d) busy)) = (model_db busy)(''default'' \<mapsto> ''eth0'')"
    "saved_db (snd (put_default stub (Data ?d) busy)) = (model_db busy)(''default'' \<mapsto> ''eth0'')"
    by simp_all
  show ?thesis using h1 h2 h3 h4 h5 a b busy_run(1) c(1) c' by blast
qed

text \<open>
  The delete raises while a default route through \<open>eth0\<close> is observed: the handler
  calls \<open>update_default\<close> for it, the second delete and the add succeed, and "default"
  is written to a configuration that had none.
\<close>

theorem clear_failure_rolls_back:
  "fst (put_default stub (Data \<lparr>interface = None, gateway = None\<rparr>) busy) =
     Inr \<lparr>resp_code = 404, resp_data = Message ''Update default gateway failed: busy''\<rparr> \<and>
   calls (snd (put_default stub (Data \<lparr>interface = None, gateway = None\<rparr>) busy)) =
     [Netifaces_gateways, Route_delete,
      Addr_interfaces, Addr_ifaddresses ''eth0'', Addr_ifaddresses ''eth1'',
      Addr_ifaddresses ''ppp0'', Route_delete, Route_add ''eth0'' (Some ''10.0.0.1''),
      Save_db, Backup_db] \<and>
   model_db busy ''default'' = None \<and>
   model_db (snd (put_default stub (Data \<lparr>interface = None, gateway = None\<rparr>) busy)) ''default'' =
     Some ''eth0'' \<and>
   saved_db (snd (put_default stub (Data \<lparr>interface = None, gateway = None\<rparr>) busy)) ''default'' =
     Some ''eth0''"
  by (simp add: stub_run busy_def)

text \<open>
  C1, as the code has it. The handler has read the default route \<open>obs\<close> and
  \<open>update_default\<close> raises \<open>e\<close> for the request (in its checks or in the delete and
  add). The failed call has written nothing to the configuration. The answer is 404
  with the message of \<open>e\<close>, whatever the recovery did, and that message is logged last.
  The recovery does nothing when no default route was observed; otherwise it is
  \<open>update_default\<close> for \<open>obs\<close>. If that raises, "Failed to recover the default gateway."
  is logged, nothing is raised and the configuration is as before the request. If it
  succeeds, the configuration is the one before the request with "default" set to the
  interface of \<open>obs\<close> (or removed, were that interface the empty string): unchanged
  exactly when that was the persisted default already.
\<close>

theorem put_default_apply_failed:
  assumes "fst (list_default P s) = Inr obs"
    and "fst (update_default P d (snd (list_default P s))) = Inl e"
  shows "let s1 = snd (update_default P d (snd (list_default P s)));
             m = ''Update default gateway failed: '' @ str_exn e
         in model_db s1 = model_db s \<and> saved_db s1 = saved_db s \<and> backup_db s1 = backup_db s \<and>
            fst (put_default P (Data d) s) = Inr \<lparr>resp_code = 404, resp_data = Message m\<rparr> \<and>
            snd (put_default P (Data d) s) =
              (recover P obs s1)\<lparr>logger := logger (recover P obs s1) @ [m]\<rparr> \<and>
            (\<not> nonempty_dict obs \<longrightarrow> recover P obs s1 = s1) \<and>
            (nonempty_dict obs \<longrightarrow>
               (case update_default P obs s1 of
                  (Inr u, s2) \<Rightarrow>
                    recover P obs s1 = s2 \<and>
                    (\<exists>i. interface obs = Some i \<and>
                       model_db s2 =
                         (if i \<noteq> [] then (model_db s)(''default'' \<mapsto> i)
                          else (model_db s)(''default'' := None)))
                | (Inl e', s2) \<Rightarrow>
                    recover P obs s1 =
                      s2\<lparr>logger := logger s2 @ [''Failed to recover the default gateway.'']\<rparr> \<and>
                    model_db s2 = model_db s \<and> saved_db s2 = saved_db s))"
proof -
  let ?s0 = "snd (list_default P s)"
  let ?s1 = "snd (update_default P d ?s0)"
  let ?m = "''Update default gateway failed: '' @ str_exn e"
  have s0: "model_db ?s0 = model_db s" "saved_db ?s0 = saved_db s" "backup_db ?s0 = backup_db s"
    by (simp_all add: list_default_frame)
  have db1: "model_db ?s1 = model_db s" "saved_db ?s1 = saved_db s" "backup_db ?s1 = backup_db s"
    using update_default_Inl [OF assms(2)] s0 by simp_all
  have p: "put_default P (Data d) s =
      (Inr \<lparr>resp_code = 404, resp_data = Message ?m\<rparr>,
       (recover P obs ?s1)\<lparr>logger := logger (recover P obs ?s1) @ [?m]\<rparr>)"
    by (rule put_default_failed [OF assms])
  have a: "recover P obs ?s1 = ?s1" if "\<not> nonempty_dict obs"
    using that by (simp add: recover_def)
  have b: "(case update_default P obs ?s1 of
                  (Inr u, s2) \<Rightarrow>
                    recover P obs ?s1 = s2 \<and>
                    (\<exists>i. interface obs = Some i \<and>
                       model_db s2 =
                         (if i \<noteq> [] then (model_db s)(''default'' \<mapsto> i)
                          else (model_db s)(''default'' := None)))
                | (Inl e', s2) \<Rightarrow>
                    recover P obs ?s1 =
                      s2\<lparr>logger := logger s2 @ [''Failed to recover the default gateway.'']\<rparr> \<and>
                    model_db s2 = model_db s \<and> saved_db s2 = saved_db s)"
    if ne: "nonempty_dict obs"
  proof -
    from list_default_shape [OF assms(1)] ne obtain i g where
      obs: "obs = \<lparr>interface = Some i, gateway = Some g\<rparr>" by blast
    obtain r s2 where u: "update_default P obs ?s1 = (r, s2)"
      by (cases "update_default P obs ?s1")
    show ?thesis
    proof (cases r)
      case (Inl e')
      with u have "fst (update_default P obs ?s1) = Inl e'" by simp
      from update_default_Inl [OF this] u db1
      have "model_db s2 = model_db s" "saved_db s2 = saved_db s" by simp_all
      then show ?thesis using u Inl ne by (simp add: recover_def)
    next
      case (Inr v)
      with u have "fst (update_default P obs ?s1) = Inr ()" by simp
      from update_default_Inr_db [OF this, of i] obs u db1
      have "model_db s2 =
          (if i \<noteq> [] then (model_db s)(''default'' \<mapsto> i) else (model_db s)(''default'' := None))"
        by simp
      then show ?thesis using u Inr ne obs by (simp add: recover_def)
    qed
  qed
  show ?thesis unfolding Let_def using db1 p a b by simp
qed

text \<open>
  \<open>eth0\<close> is persisted and is the default route; the add of \<open>ppp0\<close> raises. The route
  and the configuration are back on \<open>eth0\<close>.
\<close>

lemma flaky_run:
  "fst (list_default stub flaky) = Inr \<lparr>interface = Some ''eth0'', gateway = Some ''10.0.0.1''\<rparr>"
  "fst (update_default stub \<lparr>interface = Some ''ppp0'', gateway = None\<rparr>
          (snd (list_default stub flaky))) = Inl (Exception ''Network is unreachable'')"
  "calls (snd (update_default stub \<lparr>interface = Some ''ppp0'', gateway = None\<rparr>
          (snd (list_default stub flaky)))) =
     [Netifaces_gateways, Addr_interfaces, Addr_ifaddresses ''eth0'', Addr_ifaddresses ''eth1'',
      Addr_ifaddresses ''ppp0'', Route_delete, Route_add ''ppp0'' None]"
  "model_db (snd (put_default stub (Data \<lparr>interface = Some ''ppp0'', gateway = None\<rparr>) flaky))
     ''default'' = Some ''eth0''"
  "default_route (os (snd (put_default stub (Data \<lparr>interface = Some ''ppp0'', gateway = None\<rparr>)
     flaky))) = Some (''10.0.0.1'', ''eth0'')"
  "logger (snd (put_default stub (Data \<lparr>interface = Some ''ppp0'', gateway = None\<rparr>) flaky)) =
     [''Update default gateway failed: Network is unreachable'']"
  by (simp_all add: stub_run flaky_def)

theorem put_default_apply_failed_witness:
  "fst (list_default stub flaky) = Inr \<lparr>interface = Some ''eth0'', gateway = Some ''10.0.0.1''\<rparr> \<and>
   fst (update_default stub \<lparr>interface = Some ''ppp0'', gateway = None\<rparr>
          (snd (list_default stub flaky))) = Inl (Exception ''Network is unreachable'') \<and>
   fst (put_default stub (Data \<lparr>interface = Some ''ppp0'', gateway = None\<rparr>) flaky) =
     Inr \<lparr>resp_code = 404,
          resp_data = Message ''Update default gateway failed: Network is unreachable''\<rparr> \<and>
   model_db flaky ''default'' = Some ''eth0'' \<and>
   model_db (snd (put_default stub (Data \<lparr>interface = Some ''ppp0'', gateway = None\<rparr>) flaky))
     ''default'' = Some ''eth0'' \<and>
   default_route (os (snd (put_default stub (Data \<lparr>interface = Some ''ppp0'', gateway = None\<rparr>)
     flaky))) = Some (''10.0.0.1'', ''eth0'') \<and>
   logger (snd (put_default stub (Data \<lparr>interface = Some ''ppp0'', gateway = None\<rparr>) flaky)) =
     [''Update default gateway failed: Network is unreachable'']"
proof -
  note h1 = flaky_run(1)
  note h2 = flaky_run(2)
  from put_default_apply_failed [OF h1 h2]
  have "fst (put_default stub (Data \<lparr>interface = Some ''ppp0'', gateway = None\<rparr>) flaky) =
     Inr \<lparr>resp_code = 404,
          resp_data = Message ''Update default gateway failed: Network is unreachable''\<rparr>"
    by (simp add: Let_def)
  moreover have "model_db flaky ''default'' = Some ''eth0''" by (simp add: flaky_def fresh_def)
  ultimately show ?thesis using flaky_run by blast
qed

text \<open>
  The same request when nothing is persisted: the add raises after the checks, the
  recovery succeeds, and the configuration, empty before, names \<open>eth0\<close> afterwards.
\<close>

theorem restore_changes_config:
  "fst (list_default stub unpersisted) =
     Inr \<lparr>interface = Some ''eth0'', gateway = Some ''10.0.0.1''\<rparr> \<and>
   update_default stub \<lparr>interface = Some ''ppp0'', gateway = None\<rparr>
       (snd (list_default stub unpersisted)) =
     (Inl (Exception ''Network is unreachable''),
      unpersisted\<lparr>os := (os unpersisted)\<lparr>default_route := None, add_results := []\<rparr>,
                  calls := [Netifaces_gateways, Addr_interfaces, Addr_ifaddresses ''eth0'',
                            Addr_ifaddresses ''eth1'', Addr_ifaddresses ''ppp0'', Route_delete,
                            Route_add ''ppp0'' None]\<rparr>) \<and>
   fst (put_default stub (Data \<lparr>interface = Some ''ppp0'', gateway = None\<rparr>) unpersisted) =
     Inr \<lparr>resp_code = 404,
          resp_data = Message ''Update default gateway failed: Network is unreachable''\<rparr> \<and>
   model_db unpersisted ''default'' = None \<and>
   saved_db unpersisted ''default'' = None \<and>
   model_db (snd (put_default stub (Data \<lparr>interface = Some ''ppp0'', gateway = None\<rparr>)
     unpersisted)) ''default'' = Some ''eth0'' \<and>
   saved_db (snd (put_default stub (Data \<lparr>interface = Some ''ppp0'', gateway = None\<rparr>)
     unpersisted)) ''default'' = Some ''eth0''"
  by (simp add: stub_run unpersisted_def)

end
